theory Spec2Isabelle
  imports Main "HOL-Library.Log_Nat" "HOL-Library.Product_Lexorder" "HOL-Library.FSet"
    "HOL-Library.AList"
begin

section \<open>Python values used by \<open>litex/build/xilinx/vivado.py\<close>\<close>

text \<open>
  Exceptions are values. Each constructor is one exception class that the modelled code
  can raise; the string is the message where the source builds one.
\<close>

datatype error =
    ValueError string
  | IndexError
  | AssertionError
  | OSError string
  | AttributeError string
  | OverflowError
  | FormatError
  | External string

subsection \<open>\<open>str\<close> on integers\<close>

definition digit_char :: "nat \<Rightarrow> char" where
  "digit_char d = ''0123456789'' ! d"

fun str_nat :: "nat \<Rightarrow> string" where
  "str_nat n = (if n < 10 then [digit_char n] else str_nat (n div 10) @ [digit_char (n mod 10)])"

declare str_nat.simps [simp del]

definition str_int :: "int \<Rightarrow> string" where
  "str_int i = (if i < 0 then CHR ''-'' # str_nat (nat (- i)) else str_nat (nat i))"

subsection \<open>\<open>str.replace\<close> of one character, \<open>str.join\<close>\<close>

definition replace_char :: "char \<Rightarrow> char \<Rightarrow> string \<Rightarrow> string" where
  "replace_char a b s = map (\<lambda>c. if c = a then b else c) s"

fun join :: "string \<Rightarrow> string list \<Rightarrow> string" where
  "join sep [] = []"
| "join sep [x] = x"
| "join sep (x # y # ys) = x @ sep @ join sep (y # ys)"

section \<open>Constraints (.xdc)\<close>

text \<open>
  The constraint classes come from \<open>litex.build.generic_platform\<close>. \<open>Pins\<close> holds its
  list \<open>identifiers\<close>, \<open>IOStandard\<close> its \<open>name\<close>, \<open>Drive\<close> its \<open>strength\<close> (an integer
  here), \<open>Misc\<close> its text \<open>misc\<close>; \<open>Inverted\<close> has no field. \<open>Other r\<close> is any object of
  another class, \<open>r\<close> being what \<open>format\<close> prints for it.
\<close>

datatype constraint =
    Pins "string list"
  | IOStandard string
  | Drive int
  | Misc string
  | Inverted
  | Other string

definition xdc_separator :: "string \<Rightarrow> string" where
  "xdc_separator msg =
     replicate 80 CHR ''#'' @ ''\<newline>'' @
     ''# '' @ msg @ ''\<newline>'' @
     replicate 80 CHR ''#'' @ ''\<newline>''"

fun format_xdc_constraint :: "constraint \<Rightarrow> error + string option" where
  "format_xdc_constraint (Pins identifiers) =
     (case identifiers of
        [] \<Rightarrow> Inl IndexError
      | i # _ \<Rightarrow> Inr (Some (''set_property LOC '' @ i)))"
| "format_xdc_constraint (IOStandard name) = Inr (Some (''set_property IOSTANDARD '' @ name))"
| "format_xdc_constraint (Drive strength) = Inr (Some (''set_property DRIVE '' @ str_int strength))"
| "format_xdc_constraint (Misc misc) =
     Inr (Some (''set_property '' @ replace_char CHR ''='' CHR '' '' misc))"
| "format_xdc_constraint Inverted = Inr None"
| "format_xdc_constraint (Other r) = Inl (ValueError (''unknown constraint '' @ r))"

text \<open>
  The list comprehension \<open>[_format_xdc_constraint(c) for c in constraints]\<close>: the first
  constraint that raises ends it.
\<close>

fun format_all :: "constraint list \<Rightarrow> error + string option list" where
  "format_all [] = Inr []"
| "format_all (c # cs) =
     (case format_xdc_constraint c of
        Inl e \<Rightarrow> Inl e
      | Inr f \<Rightarrow> (case format_all cs of Inl e \<Rightarrow> Inl e | Inr fs \<Rightarrow> Inr (f # fs)))"

text \<open>The loop \<open>for c in fmt_c\<close> of \<open>_format_xdc\<close>: absent entries add nothing.\<close>

fun emit_lines :: "string \<Rightarrow> string option list \<Rightarrow> string" where
  "emit_lines signame [] = []"
| "emit_lines signame (None # fs) = emit_lines signame fs"
| "emit_lines signame (Some c # fs) =
     c @ '' [get_ports '' @ signame @ '']\<newline>'' @ emit_lines signame fs"

type_synonym resname = "string \<times> int \<times> string option"

definition fmt_resname :: "resname \<Rightarrow> string" where
  "fmt_resname resname =
     (case resname of (r0, r1, r2) \<Rightarrow>
        r0 @ '':'' @ str_int r1 @ (case r2 of None \<Rightarrow> [] | Some sub \<Rightarrow> ''.'' @ sub))"

definition format_xdc :: "string \<Rightarrow> resname \<Rightarrow> constraint list \<Rightarrow> error + string" where
  "format_xdc signame resname constraints =
     (case format_all constraints of
        Inl e \<Rightarrow> Inl e
      | Inr fmt_c \<Rightarrow>
          Inr (''# '' @ fmt_resname resname @ ''\<newline>'' @ emit_lines signame fmt_c @ ''\<newline>''))"

text \<open>
  Modelled from the spec: the constructor of \<open>Pins\<close> is not part of this file; a Location
  constraint built from one site holds that site alone.
\<close>

definition Pins_of_site :: "string \<Rightarrow> constraint" where
  "Pins_of_site p = Pins [p]"

type_synonym named_sc = "string \<times> string list \<times> constraint list \<times> resname"

text \<open>
  The loop \<open>for i, p in enumerate(pins)\<close>, counting from \<open>i\<close>: the blocks it appends, in
  order, or the first error.
\<close>

fun vector_blocks :: "string \<Rightarrow> resname \<Rightarrow> constraint list \<Rightarrow> nat \<Rightarrow> string list \<Rightarrow>
    error + string list" where
  "vector_blocks sig resname others i [] = Inr []"
| "vector_blocks sig resname others i (p # ps) =
     (case format_xdc (sig @ ''['' @ str_nat i @ '']'') resname (Pins_of_site p # others) of
        Inl e \<Rightarrow> Inl e
      | Inr b \<Rightarrow>
          (case vector_blocks sig resname others (Suc i) ps of
             Inl e \<Rightarrow> Inl e
           | Inr bs \<Rightarrow> Inr (b # bs)))"

text \<open>The body of the loop over \<open>named_sc\<close>: the blocks one entry appends to \<open>r\<close>.\<close>

definition signal_blocks :: "named_sc \<Rightarrow> error + string list" where
  "signal_blocks entry =
     (case entry of (sig, pins, others, resname) \<Rightarrow>
        if length pins > 1 then vector_blocks sig resname others 0 pins
        else if pins \<noteq> [] then
          (case format_xdc sig resname (Pins_of_site (hd pins) # others) of
             Inl e \<Rightarrow> Inl e | Inr b \<Rightarrow> Inr [b])
        else
          (case format_xdc sig resname others of
             Inl e \<Rightarrow> Inl e | Inr b \<Rightarrow> Inr [b]))"

fun io_constraints :: "string \<Rightarrow> named_sc list \<Rightarrow> error + string" where
  "io_constraints r [] = Inr r"
| "io_constraints r (entry # rest) =
     (case signal_blocks entry of
        Inl e \<Rightarrow> Inl e
      | Inr bs \<Rightarrow> io_constraints (r @ concat bs) rest)"

definition build_xdc :: "named_sc list \<Rightarrow> string list \<Rightarrow> error + string" where
  "build_xdc named_sc named_pc =
     (case io_constraints (xdc_separator ''IO constraints'') named_sc of
        Inl e \<Rightarrow> Inl e
      | Inr r \<Rightarrow>
          Inr (r @ xdc_separator ''Design constraints'' @
               (if named_pc \<noteq> [] then ''\<newline>'' @ join ''\<newline>\<newline>'' named_pc else [])))"

section \<open>Script\<close>

text \<open>
  \<open>sys.platform\<close> and the result of \<open>tools.get_litex_git_revision()\<close> are arguments. The
  result is the returned \<open>script_file\<close> and the text given to \<open>tools.write_to_file\<close>.
\<close>

definition build_script :: "string \<Rightarrow> string \<Rightarrow> string \<Rightarrow> string \<times> string" where
  "build_script sys_platform git_revision build_name =
     (if sys_platform \<in> set [''win32'', ''cygwin''] then
        (''build_'' @ build_name @ ''.bat'',
         ''REM Autogenerated by LiteX / git: '' @ git_revision @ ''\<newline>'' @
         ''vivado -mode batch -source '' @ build_name @ ''.tcl\<newline>'')
      else
        (''build_'' @ build_name @ ''.sh'',
         ''# Autogenerated by LiteX / git: '' @ git_revision @ ''\<newline>set -e\<newline>'' @
         ''vivado -mode batch -source '' @ build_name @ ''.tcl\<newline>''))"

text \<open>
  \<open>_run_script\<close>: the exit status of \<open>tools.subprocess_call_filtered\<close> is an argument.
\<close>

definition run_script :: "int \<Rightarrow> error option" where
  "run_script exit_status = (if exit_status \<noteq> 0 then Some (OSError ''Subprocess failed'') else None)"

text \<open>The lines of a text: the pieces between line feeds, a final line feed ending the last line.\<close>

fun splitlines_acc :: "string \<Rightarrow> string \<Rightarrow> string list" where
  "splitlines_acc cur [] = (if cur = [] then [] else [cur])"
| "splitlines_acc cur (c # cs) =
     (if c = CHR ''\<newline>'' then cur # splitlines_acc [] cs else splitlines_acc (cur @ [c]) cs)"

definition splitlines :: "string \<Rightarrow> string list" where
  "splitlines s = splitlines_acc [] s"

section \<open>XilinxVivadoToolchain\<close>

subsection \<open>Floating point\<close>

text \<open>
  A Python \<open>float\<close> is an IEEE 754 binary64 number. A finite one is given by its exact
  value, a rational; the two zeros are not told apart (the code below never divides by a
  period and does not print a zero's sign). \<open>binary64 q\<close> is the float nearest to \<open>q\<close>,
  ties to the even significand: 53 bits of significand, least exponent \<open>-1074\<close>, overflow
  to infinity when the rounded value reaches \<open>2 ^ 1024\<close> (its binary exponent is then at
  least 1024).
\<close>

datatype pyfloat = Finite rat | PInf | NInf | NaN

definition pow2 :: "int \<Rightarrow> rat" where
  "pow2 e = (if 0 \<le> e then 2 ^ nat e else 1 / 2 ^ nat (- e))"

definition round_half_even :: "rat \<Rightarrow> int" where
  "round_half_even q =
     (let f = \<lfloor>q\<rfloor>; r = q - of_int f
      in if r < 1 / 2 then f else if 1 / 2 < r then f + 1 else if even f then f else f + 1)"

text \<open>\<open>ilog2 a\<close> is the integer \<open>e\<close> with \<open>2 ^ e \<le> a < 2 ^ (e + 1)\<close>, for \<open>a > 0\<close>.\<close>

definition ilog2 :: "rat \<Rightarrow> int" where
  "ilog2 a =
     (case quotient_of a of (n, d) \<Rightarrow>
        let e0 = bitlen n - bitlen d
        in if pow2 e0 \<le> a then e0 else e0 - 1)"

definition binary64 :: "rat \<Rightarrow> pyfloat" where
  "binary64 q =
     (if q = 0 then Finite 0
      else
        let a = \<bar>q\<bar>;
            p = max (ilog2 a - 52) (- 1074);
            v = of_int (round_half_even (a / pow2 p)) * pow2 p
        in if 1024 \<le> ilog2 v then (if q < 0 then NInf else PInf)
           else Finite (if q < 0 then - v else v))"

text \<open>\<open>x * 1e3\<close>, \<open>math.floor(x)\<close> and \<open>k / 1e3\<close> for an \<open>int\<close> \<open>k\<close>.\<close>

definition mul_1e3 :: "pyfloat \<Rightarrow> pyfloat" where
  "mul_1e3 x = (case x of Finite q \<Rightarrow> binary64 (q * 1000) | PInf \<Rightarrow> PInf | NInf \<Rightarrow> NInf | NaN \<Rightarrow> NaN)"

definition math_floor :: "pyfloat \<Rightarrow> error + int" where
  "math_floor x =
     (case x of
        Finite q \<Rightarrow> Inr \<lfloor>q\<rfloor>
      | PInf \<Rightarrow> Inl OverflowError
      | NInf \<Rightarrow> Inl OverflowError
      | NaN \<Rightarrow> Inl (ValueError ''cannot convert float NaN to integer''))"

definition int_div_1e3 :: "int \<Rightarrow> error + pyfloat" where
  "int_div_1e3 k =
     (case binary64 (of_int k) of
        Finite f \<Rightarrow> Inr (binary64 (f / 1000))
      | _ \<Rightarrow> Inl OverflowError)"

text \<open>\<open>math.floor(period*1e3)/1e3\<close>, the rounding of \<open>add_period_constraint\<close>.\<close>

definition round_period :: "pyfloat \<Rightarrow> error + pyfloat" where
  "round_period period =
     (case math_floor (mul_1e3 period) of
        Inl e \<Rightarrow> Inl e
      | Inr k \<Rightarrow> int_div_1e3 k)"

text \<open>
  \<open>"{:.2f}".format(x)\<close> for a finite \<open>x\<close>: the exact value rounded to two decimals, ties to
  even, the sign kept.
\<close>

definition fmt_2f :: "pyfloat \<Rightarrow> string" where
  "fmt_2f x =
     (case x of
        Finite q \<Rightarrow>
          (let c = nat (round_half_even (\<bar>q\<bar> * 100))
           in (if q < 0 then ''-'' else []) @ str_nat (c div 100) @ ''.'' @
              [digit_char (c div 10 mod 10), digit_char (c mod 10)])
      | PInf \<Rightarrow> ''inf''
      | NInf \<Rightarrow> ''-inf''
      | NaN \<Rightarrow> ''nan'')"

subsection \<open>The toolchain object, signals and the platform\<close>

text \<open>
  A clock is a \<open>Signal\<close>; it is hashed and sorted by its \<open>duid\<close>, and two signals are equal
  when they are the same object, so a signal is its \<open>duid\<close>. \<open>attr\<close> holds the \<open>attr\<close> sets
  of the signals (they belong to the signals; the methods below change them). The dict
  \<open>clocks\<close> is the list of its items in insertion order; \<open>None\<close> stands for an attribute
  removed by \<open>del\<close>.
\<close>

type_synonym clk = nat

record toolchain =
  bitstream_commands :: "string list"
  additional_commands :: "string list"
  pre_synthesis_commands :: "string list"
  pre_placement_commands :: "string list"
  pre_routing_commands :: "string list"
  incremental_implementation :: bool
  vivado_synth_directive :: string
  opt_directive :: string
  vivado_place_directive :: string
  vivado_post_place_phys_opt_directive :: "string option"
  vivado_route_directive :: string
  vivado_post_route_phys_opt_directive :: string
  clocks :: "(clk \<times> pyfloat) list option"
  false_paths :: "(clk \<times> clk) fset option"
  attr :: "clk \<Rightarrow> string set"

definition init_toolchain :: "(clk \<Rightarrow> string set) \<Rightarrow> toolchain" where
  "init_toolchain a =
     \<lparr> bitstream_commands = [],
       additional_commands = [],
       pre_synthesis_commands = [],
       pre_placement_commands = [],
       pre_routing_commands = [],
       incremental_implementation = False,
       vivado_synth_directive = ''default'',
       opt_directive = ''default'',
       vivado_place_directive = ''default'',
       vivado_post_place_phys_opt_directive = None,
       vivado_route_directive = ''default'',
       vivado_post_route_phys_opt_directive = ''default'',
       clocks = Some [],
       false_paths = Some {||},
       attr = a \<rparr>"

text \<open>
  The fields of the platform that this file reads or changes. \<open>ips\<close> is the list of the
  items of the dict; \<open>commands\<close> is what \<open>add_platform_command\<close> has collected, each
  command with its keyword arguments.
\<close>

record platform =
  device :: string
  sources :: "(string \<times> string \<times> string) list"
  edifs :: "string list"
  ips :: "(string \<times> bool) list"
  verilog_include_paths :: "string list"
  commands :: "(string \<times> (string \<times> clk) list) list"

definition add_platform_command :: "string \<Rightarrow> (string \<times> clk) list \<Rightarrow> platform \<Rightarrow> platform" where
  "add_platform_command command signals p = p\<lparr>commands := commands p @ [(command, signals)]\<rparr>"

subsection \<open>Timing constraints\<close>

definition add_keep :: "clk \<Rightarrow> toolchain \<Rightarrow> toolchain" where
  "add_keep c self = self\<lparr>attr := (attr self)(c := insert ''keep'' (attr self c))\<rparr>"

text \<open>\<open>x != y\<close> on floats: a NaN differs from everything.\<close>

definition float_ne :: "pyfloat \<Rightarrow> pyfloat \<Rightarrow> bool" where
  "float_ne x y = (x = NaN \<or> y = NaN \<or> x \<noteq> y)"

definition add_period_constraint ::
    "toolchain \<Rightarrow> platform \<Rightarrow> clk \<Rightarrow> pyfloat \<Rightarrow> error option \<times> toolchain" where
  "add_period_constraint self platform c period =
     (let self = add_keep c self
      in case round_period period of
           Inl e \<Rightarrow> (Some e, self)
         | Inr period \<Rightarrow>
             (case clocks self of
                None \<Rightarrow> (Some (AttributeError ''clocks''), self)
              | Some cs \<Rightarrow>
                  (case map_of cs c of
                     Some old \<Rightarrow>
                       if float_ne period old then
                         (Some (ValueError (''Clock already constrained to '' @ fmt_2f old @
                                            ''ns, new constraint to '' @ fmt_2f period @ ''ns'')),
                          self)
                       else (None, self\<lparr>clocks := Some (AList.update c period cs)\<rparr>)
                   | None \<Rightarrow> (None, self\<lparr>clocks := Some (AList.update c period cs)\<rparr>))))"

definition add_false_path_constraint ::
    "toolchain \<Rightarrow> platform \<Rightarrow> clk \<Rightarrow> clk \<Rightarrow> error option \<times> toolchain" where
  "add_false_path_constraint self platform from_clk to_clk =
     (let self = add_keep to_clk (add_keep from_clk self)
      in case false_paths self of
           None \<Rightarrow> (Some (AttributeError ''false_paths''), self)
         | Some fp \<Rightarrow>
             if (to_clk, from_clk) |\<notin>| fp
             then (None, self\<lparr>false_paths := Some (finsert (from_clk, to_clk) fp)\<rparr>)
             else (None, self))"

text \<open>
  \<open>str(period)\<close> of a float is the shortest decimal that reads back as the same float; it
  is the argument \<open>float_str\<close>.
\<close>

definition create_clock_command :: "(pyfloat \<Rightarrow> string) \<Rightarrow> clk \<times> pyfloat \<Rightarrow> platform \<Rightarrow> platform" where
  "create_clock_command float_str item =
     (case item of (c, period) \<Rightarrow>
        add_platform_command
          (''create_clock -name {clk} -period '' @ float_str period @ '' [get_nets {clk}]'')
          [(''clk'', c)])"

definition clock_groups_command :: "clk \<times> clk \<Rightarrow> platform \<Rightarrow> platform" where
  "clock_groups_command pair =
     (case pair of (from_clk, to_clk) \<Rightarrow>
        add_platform_command
          (''set_clock_groups '' @
           ''-group [get_clocks -include_generated_clocks -of [get_nets {from_}]] '' @
           ''-group [get_clocks -include_generated_clocks -of [get_nets {to}]] '' @
           ''-asynchronous'')
          [(''from_'', from_clk), (''to'', to_clk)])"

definition build_clock_constraints ::
    "(pyfloat \<Rightarrow> string) \<Rightarrow> toolchain \<Rightarrow> platform \<Rightarrow> error option \<times> toolchain \<times> platform" where
  "build_clock_constraints float_str self platform =
     (let platform = add_platform_command (xdc_separator ''Clock constraints'') [] platform
      in case clocks self of
           None \<Rightarrow> (Some (AttributeError ''clocks''), self, platform)
         | Some cs \<Rightarrow>
             (let platform = fold (create_clock_command float_str) (sort_key fst cs) platform
              in case false_paths self of
                   None \<Rightarrow> (Some (AttributeError ''false_paths''), self, platform)
                 | Some fp \<Rightarrow>
                     (let platform = fold clock_groups_command (sorted_list_of_fset fp) platform
                      in (None, self\<lparr>clocks := None, false_paths := None\<rparr>, platform))))"

definition build_false_path_constraints :: "platform \<Rightarrow> platform" where
  "build_false_path_constraints platform =
     (let platform = add_platform_command (xdc_separator ''False path constraints'') [] platform;
          platform = add_platform_command
            (''set_false_path -quiet '' @
             ''-through [get_nets -hierarchical -filter {{mr_ff == TRUE}}]'') [] platform;
          platform = add_platform_command
            (''set_false_path -quiet '' @
             ''-to [get_pins -filter {{REF_PIN_NAME == PRE}} '' @
             ''-of_objects [get_cells -hierarchical -filter {{ars_ff1 == TRUE || ars_ff2 == TRUE}}]]'')
            [] platform;
          platform = add_platform_command
            (''set_max_delay 2 -quiet '' @
             ''-from [get_pins -filter {{REF_PIN_NAME == C}} '' @
             ''-of_objects [get_cells -hierarchical -filter {{ars_ff1 == TRUE}}]] '' @
             ''-to [get_pins -filter {{REF_PIN_NAME == D}} '' @
             ''-of_objects [get_cells -hierarchical -filter {{ars_ff2 == TRUE}}]]'') [] platform
      in platform)"

subsection \<open>The build script (.tcl)\<close>

text \<open>
  \<open>os.path.basename\<close> and the root part of \<open>os.path.splitext\<close>, for POSIX paths: the
  extension starts at the last dot of the name, unless only dots come before it.
\<close>

definition basename :: "string \<Rightarrow> string" where
  "basename p = rev (takeWhile (\<lambda>c. c \<noteq> CHR ''/'') (rev p))"

definition splitext_root :: "string \<Rightarrow> string" where
  "splitext_root b =
     (if CHR ''.'' \<in> set b then
        (let root = rev (tl (dropWhile (\<lambda>c. c \<noteq> CHR ''.'') (rev b)))
         in if \<exists>c \<in> set root. c \<noteq> CHR ''.'' then root else b)
      else b)"

text \<open>
  A section of \<open>_build_tcl\<close> is the lines it appends to \<open>tcl\<close> and the exception that
  ended it, if any. The hook commands are templates: \<open>c.format(build_name=build_name)\<close>
  is the argument \<open>fmt\<close>, called with the template and the build name.
\<close>

type_synonym tcl_section = "string list \<times> error option"

type_synonym formatter = "string \<Rightarrow> string \<Rightarrow> error + string"

fun format_commands :: "formatter \<Rightarrow> string \<Rightarrow> string list \<Rightarrow> tcl_section" where
  "format_commands fmt build_name [] = ([], None)"
| "format_commands fmt build_name (c # cs) =
     (case fmt c build_name of
        Inl e \<Rightarrow> ([], Some e)
      | Inr line \<Rightarrow>
          (case format_commands fmt build_name cs of (lines, r) \<Rightarrow> (line # lines, r)))"

definition after_lines :: "string list \<Rightarrow> tcl_section \<Rightarrow> tcl_section" where
  "after_lines ls sec = (ls @ fst sec, snd sec)"

definition tcl_create_project :: "platform \<Rightarrow> string \<Rightarrow> tcl_section" where
  "tcl_create_project platform build_name =
     ([''\<newline># Create Project\<newline>'',
       ''create_project -force -name '' @ build_name @ '' -part '' @ device platform,
       ''set_msg_config -id {Common 17-55} -new_severity {Warning}''], None)"

definition tcl_enable_xpm :: "bool \<Rightarrow> tcl_section" where
  "tcl_enable_xpm enable_xpm =
     (if enable_xpm then
        [''\<newline># Enable Xilinx Parameterized Macros\<newline>'',
         ''set_property XPM_LIBRARIES {XPM_CDC XPM_MEMORY} [current_project]'']
      else [], None)"

definition source_commands :: "string \<times> string \<times> string \<Rightarrow> string list" where
  "source_commands src =
     (case src of (filename, language, library) \<Rightarrow>
        let filename_tcl = ''{'' @ filename @ ''}''
        in if language = ''systemverilog'' then
             [''read_verilog -v '' @ filename_tcl,
              ''set_property file_type SystemVerilog [get_files '' @ filename_tcl @ '']'']
           else if language = ''verilog'' then
             [''read_verilog '' @ filename_tcl]
           else if language = ''vhdl'' then
             [''read_vhdl -vhdl2008 '' @ filename_tcl,
              ''set_property library '' @ library @ '' [get_files '' @ filename_tcl @ '']'']
           else
             [''add_files '' @ filename_tcl])"

definition tcl_add_sources :: "platform \<Rightarrow> string \<Rightarrow> tcl_section" where
  "tcl_add_sources platform synth_mode =
     (if synth_mode = ''vivado'' then
        ''\<newline># Add Sources\<newline>'' # concat (map source_commands (sources platform))
      else [], None)"

definition tcl_add_edifs :: "platform \<Rightarrow> tcl_section" where
  "tcl_add_edifs platform =
     (''\<newline># Add EDIFs\<newline>'' #
      map (\<lambda>filename. ''read_edif '' @ (''{'' @ filename @ ''}'')) (edifs platform), None)"

definition ip_commands :: "string \<times> bool \<Rightarrow> string list" where
  "ip_commands item =
     (case item of (filename, disable_constraints) \<Rightarrow>
        let filename_tcl = ''{'' @ filename @ ''}'';
            ip = splitext_root (basename filename)
        in [''read_ip '' @ filename_tcl,
            ''upgrade_ip [get_ips '' @ ip @ '']'',
            ''generate_target all [get_ips '' @ ip @ '']'',
            ''synth_ip [get_ips '' @ ip @ ''] -force'',
            ''get_files -all -of_objects [get_files '' @ filename_tcl @ '']''] @
           (if disable_constraints then
              [''set_property is_enabled false [get_files -of_objects [get_files '' @ filename_tcl @
               ''] -filter {FILE_TYPE == XDC}]'']
            else []))"

definition tcl_add_ips :: "platform \<Rightarrow> tcl_section" where
  "tcl_add_ips platform =
     (''\<newline># Add IPs\<newline>'' # concat (map ip_commands (ips platform)), None)"

definition tcl_add_constraints :: "string \<Rightarrow> tcl_section" where
  "tcl_add_constraints build_name =
     ([''\<newline># Add constraints\<newline>'',
       ''read_xdc '' @ build_name @ ''.xdc'',
       ''set_property PROCESSING_ORDER EARLY [get_files '' @ build_name @ ''.xdc]''], None)"

definition tcl_pre_synthesis :: "formatter \<Rightarrow> toolchain \<Rightarrow> string \<Rightarrow> tcl_section" where
  "tcl_pre_synthesis fmt self build_name =
     after_lines [''\<newline># Add pre-synthesis commands\<newline>'']
       (format_commands fmt build_name (pre_synthesis_commands self))"

definition tcl_synthesis_report :: "string \<Rightarrow> string list" where
  "tcl_synthesis_report build_name =
     [''\<newline># Synthesis report\<newline>'',
      ''report_timing_summary -file '' @ build_name @ ''_timing_synth.rpt'',
      ''report_utilization -hierarchical -file '' @ build_name @ ''_utilization_hierarchical_synth.rpt'',
      ''report_utilization -file '' @ build_name @ ''_utilization_synth.rpt'']"

definition tcl_synthesis :: "toolchain \<Rightarrow> platform \<Rightarrow> string \<Rightarrow> string \<Rightarrow> tcl_section" where
  "tcl_synthesis self platform build_name synth_mode =
     (if synth_mode = ''vivado'' then
        ([''\<newline># Synthesis\<newline>'',
          ''synth_design -directive '' @ vivado_synth_directive self @ '' -top '' @ build_name @
          '' -part '' @ device platform @
          (if verilog_include_paths platform \<noteq> []
           then '' -include_dirs {'' @ join '' '' (verilog_include_paths platform) @ ''}''
           else [])] @
         tcl_synthesis_report build_name, None)
      else if synth_mode = ''yosys'' then
        ([''\<newline># Read Yosys EDIF\<newline>'',
          ''read_edif '' @ build_name @ ''.edif'',
          ''link_design -top '' @ build_name @ '' -part '' @ device platform] @
         tcl_synthesis_report build_name, None)
      else ([], Some (OSError (''Unknown synthesis mode! '' @ synth_mode))))"

definition tcl_optimize :: "toolchain \<Rightarrow> tcl_section" where
  "tcl_optimize self =
     ([''\<newline># Optimize design\<newline>'',
       ''opt_design -directive '' @ opt_directive self], None)"

definition tcl_pre_placement :: "formatter \<Rightarrow> toolchain \<Rightarrow> string \<Rightarrow> tcl_section" where
  "tcl_pre_placement fmt self build_name =
     after_lines
       ((if incremental_implementation self then
           [''\<newline># Read design checkpoint\<newline>'',
            ''read_checkpoint -incremental '' @ build_name @ ''_route.dcp'']
         else []) @
        [''\<newline># Add pre-placement commands\<newline>''])
       (format_commands fmt build_name (pre_placement_commands self))"

definition tcl_placement :: "toolchain \<Rightarrow> string \<Rightarrow> tcl_section" where
  "tcl_placement self build_name =
     ([''\<newline># Placement\<newline>'',
       ''place_design -directive '' @ vivado_place_directive self] @
      (case vivado_post_place_phys_opt_directive self of
         None \<Rightarrow> []
       | Some d \<Rightarrow> if d \<noteq> [] then [''phys_opt_design -directive '' @ d] else []) @
      [''\<newline># Placement report\<newline>'',
       ''report_utilization -hierarchical -file '' @ build_name @ ''_utilization_hierarchical_place.rpt'',
       ''report_utilization -file '' @ build_name @ ''_utilization_place.rpt'',
       ''report_io -file '' @ build_name @ ''_io.rpt'',
       ''report_control_sets -verbose -file '' @ build_name @ ''_control_sets.rpt'',
       ''report_clock_utilization -file '' @ build_name @ ''_clock_utilization.rpt''], None)"

definition tcl_pre_routing :: "formatter \<Rightarrow> toolchain \<Rightarrow> string \<Rightarrow> tcl_section" where
  "tcl_pre_routing fmt self build_name =
     after_lines [''\<newline># Add pre-routing commands\<newline>'']
       (format_commands fmt build_name (pre_routing_commands self))"

definition tcl_routing :: "formatter \<Rightarrow> toolchain \<Rightarrow> string \<Rightarrow> tcl_section" where
  "tcl_routing fmt self build_name =
     after_lines
       [''\<newline># Routing\<newline>'',
        ''route_design -directive '' @ vivado_route_directive self,
        ''phys_opt_design -directive '' @ vivado_post_route_phys_opt_directive self,
        ''write_checkpoint -force '' @ build_name @ ''_route.dcp'',
        ''\<newline># Routing report\<newline>'',
        ''report_timing_summary -no_header -no_detailed_paths'',
        ''report_route_status -file '' @ build_name @ ''_route_status.rpt'',
        ''report_drc -file '' @ build_name @ ''_drc.rpt'',
        ''report_timing_summary -datasheet -max_paths 10 -file '' @ build_name @ ''_timing.rpt'',
        ''report_power -file '' @ build_name @ ''_power.rpt'']
       (format_commands fmt build_name (bitstream_commands self))"

definition tcl_bitstream :: "formatter \<Rightarrow> toolchain \<Rightarrow> string \<Rightarrow> tcl_section" where
  "tcl_bitstream fmt self build_name =
     (case after_lines
             [''\<newline># Bitstream generation\<newline>'',
              ''write_bitstream -force '' @ build_name @ ''.bit '']
             (format_commands fmt build_name (additional_commands self)) of
        (lines, Some e) \<Rightarrow> (lines, Some e)
      | (lines, None) \<Rightarrow> (lines @ [''\<newline># End\<newline>'', ''quit''], None))"

text \<open>
  The sections run in the order of the source; each line carries the number of the
  section that appended it. The first exception ends the run.
\<close>

fun run_sections :: "(nat \<times> tcl_section) list \<Rightarrow> (nat \<times> string) list \<times> error option" where
  "run_sections [] = ([], None)"
| "run_sections ((n, lines, Some e) # rest) = (map (Pair n) lines, Some e)"
| "run_sections ((n, lines, None) # rest) =
     (case run_sections rest of (tcl, r) \<Rightarrow> (map (Pair n) lines @ tcl, r))"

definition tcl_sections ::
    "formatter \<Rightarrow> toolchain \<Rightarrow> platform \<Rightarrow> string \<Rightarrow> string \<Rightarrow> bool \<Rightarrow> (nat \<times> tcl_section) list" where
  "tcl_sections fmt self platform build_name synth_mode enable_xpm =
     [(1, tcl_create_project platform build_name),
      (2, tcl_enable_xpm enable_xpm),
      (3, tcl_add_sources platform synth_mode),
      (4, tcl_add_edifs platform),
      (5, tcl_add_ips platform),
      (6, tcl_add_constraints build_name),
      (7, tcl_pre_synthesis fmt self build_name),
      (8, tcl_synthesis self platform build_name synth_mode),
      (9, tcl_optimize self),
      (10, tcl_pre_placement fmt self build_name),
      (11, tcl_placement self build_name),
      (12, tcl_pre_routing fmt self build_name),
      (13, tcl_routing fmt self build_name),
      (14, tcl_bitstream fmt self build_name)]"

text \<open>
  \<open>_build_tcl\<close>: the numbered lines in \<open>tcl\<close> when the method ends, and either the
  exception or the file name and text given to \<open>tools.write_to_file\<close>.
\<close>

definition build_tcl ::
    "formatter \<Rightarrow> toolchain \<Rightarrow> platform \<Rightarrow> string \<Rightarrow> string \<Rightarrow> bool \<Rightarrow>
     (nat \<times> string) list \<times> (error + string \<times> string)" where
  "build_tcl fmt self platform build_name synth_mode enable_xpm =
     (if synth_mode \<notin> set [''vivado'', ''yosys''] then ([], Inl AssertionError)
      else
        case run_sections (tcl_sections fmt self platform build_name synth_mode enable_xpm) of
          (tcl, Some e) \<Rightarrow> (tcl, Inl e)
        | (tcl, None) \<Rightarrow> (tcl, Inr (build_name @ ''.tcl'', join ''\<newline>'' (map snd tcl))))"

text \<open>
  A model of \<open>str.format\<close> with the one keyword \<open>build_name\<close>, for templates made of
  text, the escapes \<open>{{\<close> and \<open>}}\<close>, and fields \<open>{build_name}\<close>. A field with another
  name raises (\<open>KeyError\<close> or \<open>IndexError\<close>, given as \<open>FormatError\<close>), a lone brace
  raises \<open>ValueError\<close>. Fields with a conversion, a format specification, an attribute
  or an index are not covered.
\<close>

fun format_field :: "string \<Rightarrow> string \<Rightarrow> string \<Rightarrow> error + string"
  and format_build_name :: "string \<Rightarrow> string \<Rightarrow> error + string" where
  "format_field name [] build_name = Inl (ValueError ''expected } before end of string'')"
| "format_field name (c # cs) build_name =
     (if c = CHR ''}'' then
        (if name = ''build_name'' then
           (case format_build_name cs build_name of
              Inl e \<Rightarrow> Inl e | Inr r \<Rightarrow> Inr (build_name @ r))
         else Inl FormatError)
      else format_field (name @ [c]) cs build_name)"
| "format_build_name [] build_name = Inr []"
| "format_build_name (c # cs) build_name =
     (if c = CHR ''{'' then
        (case cs of
           [] \<Rightarrow> Inl (ValueError ''Single { encountered in format string'')
         | d # ds \<Rightarrow>
             if d = CHR ''{'' then
               (case format_build_name ds build_name of
                  Inl e \<Rightarrow> Inl e | Inr r \<Rightarrow> Inr (CHR ''{'' # r))
             else format_field [] cs build_name)
      else if c = CHR ''}'' then
        (case cs of
           [] \<Rightarrow> Inl (ValueError ''Single } encountered in format string'')
         | d # ds \<Rightarrow>
             if d = CHR ''}'' then
               (case format_build_name ds build_name of
                  Inl e \<Rightarrow> Inl e | Inr r \<Rightarrow> Inr (CHR ''}'' # r))
             else Inl (ValueError ''Single } encountered in format string''))
      else
        (case format_build_name cs build_name of
           Inl e \<Rightarrow> Inl e | Inr r \<Rightarrow> Inr (c # r)))"

subsection \<open>\<open>build\<close>\<close>

text \<open>
  The process state that \<open>build\<close> changes: the current working directory and the files
  written, in order.
\<close>

record world =
  cwd :: string
  files :: "(string \<times> string) list"

definition write_to_file :: "string \<Rightarrow> string \<Rightarrow> world \<Rightarrow> world" where
  "write_to_file name contents w = w\<lparr>files := files w @ [(name, contents)]\<rparr>"

text \<open>
  What \<open>build\<close> calls outside this file, each with the result it gives: \<open>os.makedirs\<close>,
  whether a directory can be entered, \<open>get_fragment\<close> with \<open>platform.finalize\<close>,
  \<open>platform.get_verilog\<close> with \<open>platform.resolve_signals\<close> (the Verilog text, \<open>named_sc\<close>
  and \<open>named_pc\<close>), \<open>platform.add_source\<close>, \<open>common._run_yosys\<close>, the exit status of the
  wrapper script, \<open>sys.platform\<close>, the git revision, \<open>str.format\<close> on a hook and \<open>str\<close> on
  a float.
\<close>

record collaborators =
  makedirs :: "string \<Rightarrow> error option"
  enter_dir :: "string \<Rightarrow> error option"
  finalize :: "platform \<Rightarrow> error + platform"
  get_verilog :: "platform \<Rightarrow> string \<Rightarrow> error + string \<times> named_sc list \<times> string list"
  add_source :: "string \<Rightarrow> platform \<Rightarrow> platform"
  run_yosys :: "platform \<Rightarrow> string \<Rightarrow> error option"
  script_status :: "string \<Rightarrow> int"
  sys_platform :: string
  git_revision :: string
  str_format :: formatter
  float_str :: "pyfloat \<Rightarrow> string"

text \<open>
  \<open>os.chdir\<close>: a path that starts with \<open>/\<close> is absolute, any other is taken from the
  current directory (\<open>.\<close>, \<open>..\<close> and links are not resolved).
\<close>

definition os_chdir :: "collaborators \<Rightarrow> string \<Rightarrow> world \<Rightarrow> error + world" where
  "os_chdir ext path w =
     (let target = (case path of
                      [] \<Rightarrow> cwd w
                    | c # _ \<Rightarrow> if c = CHR ''/'' then path else cwd w @ ''/'' @ path)
      in if path = [] then Inl (OSError ''No such file or directory'')
         else case enter_dir ext target of
                Some e \<Rightarrow> Inl e
              | None \<Rightarrow> Inr (w\<lparr>cwd := target\<rparr>))"

text \<open>The block \<open>if run:\<close>.\<close>

definition build_run ::
    "collaborators \<Rightarrow> platform \<Rightarrow> string \<Rightarrow> string \<Rightarrow> world \<Rightarrow> error option \<times> world" where
  "build_run ext platform build_name synth_mode w =
     (case (if synth_mode = ''yosys'' then run_yosys ext platform build_name else None) of
        Some e \<Rightarrow> (Some e, w)
      | None \<Rightarrow>
          (case build_script (sys_platform ext) (git_revision ext) build_name of
             (script_file, script_contents) \<Rightarrow>
               (run_script (script_status ext script_file),
                write_to_file script_file script_contents w)))"

text \<open>The statements of \<open>build\<close> between the two calls of \<open>os.chdir\<close>.\<close>

definition build_in_dir ::
    "collaborators \<Rightarrow> toolchain \<Rightarrow> platform \<Rightarrow> world \<Rightarrow> string \<Rightarrow> bool \<Rightarrow> string \<Rightarrow> bool \<Rightarrow>
     error option \<times> toolchain \<times> platform \<times> world" where
  "build_in_dir ext self platform w build_name run synth_mode enable_xpm =
     (case finalize ext platform of
        Inl e \<Rightarrow> (Some e, self, platform, w)
      | Inr platform \<Rightarrow>
     (case build_clock_constraints (float_str ext) self platform of
        (Some e, self, platform) \<Rightarrow> (Some e, self, platform, w)
      | (None, self, platform) \<Rightarrow>
     (let platform = build_false_path_constraints platform
      in case get_verilog ext platform build_name of
        Inl e \<Rightarrow> (Some e, self, platform, w)
      | Inr (v_text, named_sc, named_pc) \<Rightarrow>
     (let v_file = build_name @ ''.v'';
          w = write_to_file v_file v_text w;
          platform = add_source ext v_file platform
      in case build_tcl (str_format ext) self platform build_name synth_mode enable_xpm of
        (tcl, Inl e) \<Rightarrow> (Some e, self, platform, w)
      | (tcl, Inr (tcl_file, tcl_text)) \<Rightarrow>
     (let w = write_to_file tcl_file tcl_text w
      in case build_xdc named_sc named_pc of
        Inl e \<Rightarrow> (Some e, self, platform, w)
      | Inr xdc_text \<Rightarrow>
     (let w = write_to_file (build_name @ ''.xdc'') xdc_text w
      in if run then
           (case build_run ext platform build_name synth_mode w of
              (r, w) \<Rightarrow> (r, self, platform, w))
         else (None, self, platform, w)))))))"

definition build ::
    "collaborators \<Rightarrow> toolchain \<Rightarrow> platform \<Rightarrow> world \<Rightarrow> string \<Rightarrow> string \<Rightarrow> bool \<Rightarrow> string \<Rightarrow> bool \<Rightarrow>
     error option \<times> toolchain \<times> platform \<times> world" where
  "build ext self platform w build_dir build_name run synth_mode enable_xpm =
     (case makedirs ext build_dir of
        Some e \<Rightarrow> (Some e, self, platform, w)
      | None \<Rightarrow>
          (let saved = cwd w
           in case os_chdir ext build_dir w of
                Inl e \<Rightarrow> (Some e, self, platform, w)
              | Inr w \<Rightarrow>
                  (case build_in_dir ext self platform w build_name run synth_mode enable_xpm of
                     (Some e, self, platform, w) \<Rightarrow> (Some e, self, platform, w)
                   | (None, self, platform, w) \<Rightarrow>
                       (case os_chdir ext saved w of
                          Inl e \<Rightarrow> (Some e, self, platform, w)
                        | Inr w \<Rightarrow> (None, self, platform, w)))))"

text \<open>Values for the examples: a platform, a process state and collaborators that all succeed.\<close>

definition example_platform :: platform where
  "example_platform =
     \<lparr> device = ''xc7a35t'',
       sources = [(''top.v'', ''verilog'', ''work'')],
       edifs = [],
       ips = [],
       verilog_include_paths = [],
       commands = [] \<rparr>"

definition example_world :: world where
  "example_world = \<lparr> cwd = ''/work'', files = [] \<rparr>"

definition example_collaborators :: collaborators where
  "example_collaborators =
     \<lparr> makedirs = (\<lambda>d. None),
       enter_dir = (\<lambda>d. None),
       finalize = (\<lambda>p. Inr p),
       get_verilog = (\<lambda>p n. Inr (''module top(); endmodule'', [], [])),
       add_source = (\<lambda>f p. p\<lparr>sources := sources p @ [(f, ''verilog'', ''work'')]\<rparr>),
       run_yosys = (\<lambda>p n. None),
       script_status = (\<lambda>s. 0),
       sys_platform = ''linux'',
       git_revision = ''0123abcd'',
       str_format = format_build_name,
       float_str = (\<lambda>x. ''10.0'') \<rparr>"

definition example_toolchain :: toolchain where
  "example_toolchain =
     (init_toolchain (\<lambda>c. {}))
       \<lparr> additional_commands := [''write_cfgmem -force -format bin -loadbit {{up 0x0 {build_name}.bit}}''],
         pre_synthesis_commands := [''set_param general.maxThreads 4''] \<rparr>"

section \<open>Properties of the constraint file\<close>

lemma str_nat_digit: "n < 10 \<Longrightarrow> str_nat n = [digit_char n]"
  by (simp add: str_nat.simps)




text \<open>
  C5. The formatter maps a Location constraint to a \<open>set_property LOC\<close> statement with
  the first identifier only, an electrical standard to \<open>set_property IOSTANDARD\<close>, a drive
  strength to \<open>set_property DRIVE\<close> with the number printed, a raw attribute to
  \<open>set_property\<close> with every \<open>=\<close> turned into a space, a polarity to no statement, and
  fails on an object of any other class.
\<close>

theorem format_xdc_constraint_mapping:
  "format_xdc_constraint (Pins (i # others)) = Inr (Some (''set_property LOC '' @ i)) \<and>
   format_xdc_constraint (IOStandard name) = Inr (Some (''set_property IOSTANDARD '' @ name)) \<and>
   format_xdc_constraint (Drive strength) = Inr (Some (''set_property DRIVE '' @ str_int strength)) \<and>
   format_xdc_constraint (Misc misc) =
     Inr (Some (''set_property '' @ map (\<lambda>c. if c = CHR ''='' then CHR '' '' else c) misc)) \<and>
   format_xdc_constraint Inverted = Inr None \<and>
   format_xdc_constraint (Other r) = Inl (ValueError (''unknown constraint '' @ r))"
  by (simp add: replace_char_def)





section \<open>Properties of the wrapper script\<close>

lemma splitlines_acc_line:
  "CHR ''\<newline>'' \<notin> set s \<Longrightarrow>
   splitlines_acc cur (s @ CHR ''\<newline>'' # rest) = (cur @ s) # splitlines_acc [] rest"
  by (induction s arbitrary: cur) auto

text \<open>
  C9, as the code has it. For a revision and a build name without a line feed, the
  wrapper script is named \<open>build_<build_name>.sh\<close> and has three lines (the comment with the
  revision, \<open>set -e\<close>, the call of the tool in batch mode on \<open>build_name.tcl\<close>), except on
  \<open>win32\<close> and \<open>cygwin\<close>, where it is named \<open>build_<build_name>.bat\<close> and has two lines: the
  comment and the call, with no line that sets a fail-fast mode.
\<close>

theorem build_script_lines:
  assumes "CHR ''\<newline>'' \<notin> set revision" and "CHR ''\<newline>'' \<notin> set build_name"
  shows "build_script os_name revision build_name =
           (''build_'' @ build_name @ (if os_name \<in> {''win32'', ''cygwin''} then ''.bat'' else ''.sh''),
            snd (build_script os_name revision build_name)) \<and>
         splitlines (snd (build_script os_name revision build_name)) =
           (if os_name \<in> {''win32'', ''cygwin''} then
              [''REM Autogenerated by LiteX / git: '' @ revision,
               ''vivado -mode batch -source '' @ build_name @ ''.tcl'']
            else
              [''# Autogenerated by LiteX / git: '' @ revision,
               ''set -e'',
               ''vivado -mode batch -source '' @ build_name @ ''.tcl''])"
proof -
  have rem: "CHR ''\<newline>'' \<notin> set (''REM Autogenerated by LiteX / git: '' @ revision)"
    using assms(1) by simp
  have hash: "CHR ''\<newline>'' \<notin> set (''# Autogenerated by LiteX / git: '' @ revision)"
    using assms(1) by simp
  have viv: "CHR ''\<newline>'' \<notin> set (''vivado -mode batch -source '' @ build_name @ ''.tcl'')"
    using assms(2) by simp
  have sete: "CHR ''\<newline>'' \<notin> set ''set -e''"
    by simp
  have win: "splitlines ((''REM Autogenerated by LiteX / git: '' @ revision) @ CHR ''\<newline>'' #
               ((''vivado -mode batch -source '' @ build_name @ ''.tcl'') @ CHR ''\<newline>'' # [])) =
             [''REM Autogenerated by LiteX / git: '' @ revision,
              ''vivado -mode batch -source '' @ build_name @ ''.tcl'']"
    unfolding splitlines_def splitlines_acc_line [OF rem] splitlines_acc_line [OF viv] by simp
  have unix: "splitlines ((''# Autogenerated by LiteX / git: '' @ revision) @ CHR ''\<newline>'' #
               (''set -e'' @ CHR ''\<newline>'' #
               ((''vivado -mode batch -source '' @ build_name @ ''.tcl'') @ CHR ''\<newline>'' # []))) =
             [''# Autogenerated by LiteX / git: '' @ revision, ''set -e'',
              ''vivado -mode batch -source '' @ build_name @ ''.tcl'']"
    unfolding splitlines_def splitlines_acc_line [OF hash] splitlines_acc_line [OF sete]
      splitlines_acc_line [OF viv] by simp
  show ?thesis
    using win unix by (simp add: build_script_def)
qed

text \<open>The scripts of the build \<open>top\<close> at revision \<open>0123abcd\<close>, on Linux and on Windows.\<close>

theorem build_script_lines_witness:
  "CHR ''\<newline>'' \<notin> set ''0123abcd'' \<and> CHR ''\<newline>'' \<notin> set ''top'' \<and>
   splitlines (snd (build_script ''linux'' ''0123abcd'' ''top'')) =
     [''# Autogenerated by LiteX / git: 0123abcd'', ''set -e'', ''vivado -mode batch -source top.tcl''] \<and>
   splitlines (snd (build_script ''win32'' ''0123abcd'' ''top'')) =
     [''REM Autogenerated by LiteX / git: 0123abcd'', ''vivado -mode batch -source top.tcl'']"
  using build_script_lines [of "''0123abcd''" "''top''" "''linux''"]
    build_script_lines [of "''0123abcd''" "''top''" "''win32''"]
  by simp

text \<open>
  C9 as stated fails on \<open>win32\<close>: the script of the build \<open>top\<close> has two lines, so it is
  not a comment, a fail-fast line and a call.
\<close>

theorem build_script_win32_counterexample:
  "splitlines (snd (build_script ''win32'' ''0123abcd'' ''top'')) =
     [''REM Autogenerated by LiteX / git: 0123abcd'', ''vivado -mode batch -source top.tcl''] \<and>
   \<not> (\<exists>comment failfast invoke.
         splitlines (snd (build_script ''win32'' ''0123abcd'' ''top'')) = [comment, failfast, invoke])"
  by (simp add: build_script_def splitlines_def)

section \<open>Properties of the build script\<close>

text \<open>
  C10. With a synthesis mode other than \<open>vivado\<close> and \<open>yosys\<close> the assertion at the head
  of \<open>_build_tcl\<close> fails: no line has been appended to \<open>tcl\<close> and no file is written.
\<close>

theorem build_tcl_unknown_mode:
  "synth_mode \<notin> {''vivado'', ''yosys''} \<Longrightarrow>
   build_tcl fmt self platform build_name synth_mode enable_xpm = ([], Inl AssertionError)"
  by (simp add: build_tcl_def)

theorem build_tcl_unknown_mode_witness:
  "''quartus'' \<notin> {''vivado'', ''yosys''} \<and>
   build_tcl format_build_name (init_toolchain (\<lambda>c. {})) example_platform ''top'' ''quartus'' False =
     ([], Inl AssertionError)"
  using build_tcl_unknown_mode [of "''quartus''" format_build_name "init_toolchain (\<lambda>c. {})"
      example_platform "''top''" False]
  by simp

lemma format_commands_ok:
  "\<forall>c\<in>set cs. \<exists>line. fmt c bn = Inr line \<Longrightarrow> snd (format_commands fmt bn cs) = None"
  by (induction cs) (auto split: sum.splits prod.splits)

lemma run_sections_all_ok:
  "\<forall>s\<in>set secs. snd (snd s) = None \<Longrightarrow>
   run_sections secs = (concat (map (\<lambda>s. map (Pair (fst s)) (fst (snd s))) secs), None)"
  by (induction secs rule: run_sections.induct) auto

lemma remdups_adj_replicate_append:
  "0 < k \<Longrightarrow> n \<notin> set ys \<Longrightarrow> remdups_adj (replicate k n @ ys) = n # remdups_adj ys"
proof (induction k)
  case 0
  then show ?case by simp
next
  case (Suc k)
  show ?case
  proof (cases k)
    case 0
    with Suc.prems show ?thesis by (cases ys) auto
  next
    case (Suc j)
    with Suc.IH Suc.prems show ?thesis by simp
  qed
qed

lemma remdups_adj_runs:
  fixes xs :: "(nat \<times> nat) list"
  shows "sorted_wrt (<) (map fst xs) \<Longrightarrow>
   remdups_adj (concat (map (\<lambda>s. replicate (snd s) (fst s)) xs)) =
     map fst (filter (\<lambda>s. 0 < snd s) xs)"
proof (induction xs)
  case Nil
  show ?case by simp
next
  case (Cons x xs)
  have notin: "fst x \<notin> set (concat (map (\<lambda>s. replicate (snd s) (fst s)) xs))"
  proof
    assume "fst x \<in> set (concat (map (\<lambda>s. replicate (snd s) (fst s)) xs))"
    then obtain s where s: "s \<in> set xs" and "fst x \<in> set (replicate (snd s) (fst s))"
      by auto
    then have "fst x = fst s"
      by (simp add: in_set_replicate)
    moreover from Cons.prems s have "fst x < fst s"
      by auto
    ultimately show False
      by simp
  qed
  show ?case
  proof (cases "0 < snd x")
    case True
    with notin Cons show ?thesis by (simp add: remdups_adj_replicate_append)
  next
    case False
    with Cons show ?thesis by simp
  qed
qed

lemma sorted_runs:
  fixes xs :: "(nat \<times> nat) list"
  shows "sorted_wrt (<) (map fst xs) \<Longrightarrow>
   sorted (concat (map (\<lambda>s. replicate (snd s) (fst s :: nat)) xs))"
proof (induction xs)
  case Nil
  show ?case by simp
next
  case (Cons x xs)
  then show ?case
    by (auto simp: sorted_append set_replicate_conv_if split: if_splits intro: less_imp_le)
qed

lemma map_fst_tagged:
  "map fst (concat (map (\<lambda>s. map (Pair (fst s)) (fst (snd s))) secs)) =
   concat (map (\<lambda>s. replicate (snd s) (fst s)) (map (\<lambda>s. (fst s, length (fst (snd s)))) secs))"
  by (induction secs) (auto simp: comp_def map_replicate_const)

lemma after_lines_ok: "snd sec = None \<Longrightarrow> snd (after_lines ls sec) = None"
  by (simp add: after_lines_def)

lemma after_lines_length: "length (fst (after_lines ls sec)) = length ls + length (fst sec)"
  by (simp add: after_lines_def)

lemma tcl_bitstream_ok:
  "snd (format_commands fmt bn (additional_commands self)) = None \<Longrightarrow>
   snd (tcl_bitstream fmt self bn) = None \<and> 0 < length (fst (tcl_bitstream fmt self bn))"
  by (cases "format_commands fmt bn (additional_commands self)")
     (simp add: tcl_bitstream_def after_lines_def)

lemma format_commands_lines:
  "\<forall>c\<in>set cs. \<exists>line. fmt c bn = Inr line \<Longrightarrow>
   format_commands fmt bn cs =
     (map (\<lambda>c. case fmt c bn of Inl e \<Rightarrow> [] | Inr line \<Rightarrow> line) cs, None)"
  by (induction cs) (auto split: sum.splits prod.splits)

lemma source_commands_fun:
  "source_commands =
     (\<lambda>(filename, language, library).
        if language = ''systemverilog'' then
          [''read_verilog -v {'' @ filename @ ''}'',
           ''set_property file_type SystemVerilog [get_files {'' @ filename @ ''}]'']
        else if language = ''verilog'' then
          [''read_verilog {'' @ filename @ ''}'']
        else if language = ''vhdl'' then
          [''read_vhdl -vhdl2008 {'' @ filename @ ''}'',
           ''set_property library '' @ library @ '' [get_files {'' @ filename @ ''}]'']
        else
          [''add_files {'' @ filename @ ''}''])"
  by (auto simp: fun_eq_iff source_commands_def Let_def)

lemma ip_commands_fun:
  "ip_commands =
     (\<lambda>(filename, disable_constraints).
        [''read_ip {'' @ filename @ ''}'',
         ''upgrade_ip [get_ips '' @ splitext_root (basename filename) @ '']'',
         ''generate_target all [get_ips '' @ splitext_root (basename filename) @ '']'',
         ''synth_ip [get_ips '' @ splitext_root (basename filename) @ ''] -force'',
         ''get_files -all -of_objects [get_files {'' @ filename @ ''}]''] @
        (if disable_constraints then
           [''set_property is_enabled false [get_files -of_objects [get_files {'' @
            filename @ ''}] -filter {FILE_TYPE == XDC}]'']
         else []))"
  by (auto simp: fun_eq_iff ip_commands_def Let_def)

text \<open>
  C1. With a recognized synthesis mode and hook commands that all format, \<open>_build_tcl\<close>
  returns and writes the lines of \<open>tcl\<close> joined by line feeds, and \<open>tcl\<close> is the lines of
  the fourteen stages one after the other: create project; the macro library when enabled;
  the sources when Vivado synthesizes; the netlists; the IPs; the constraint file; the
  pre-synthesis hooks; synthesis (or the reading of the Yosys netlist) and its three
  reports; optimization; the incremental checkpoint when enabled and the pre-placement
  hooks; placement and its five reports; the pre-routing hooks; routing, post-route
  physical optimization, the checkpoint, the five reports and the bitstream-time hooks;
  the bitstream, the additional hooks and \<open>quit\<close>. So the stage numbers of the lines never
  decrease, and each stage that is present is one run of lines.
\<close>

theorem build_tcl_stage_order:
  assumes mode: "synth_mode \<in> {''vivado'', ''yosys''}"
    and hooks: "\<forall>c \<in> set (pre_synthesis_commands self @ pre_placement_commands self @
                  pre_routing_commands self @ bitstream_commands self @ additional_commands self).
                \<exists>line. fmt c build_name = Inr line"
  shows "\<exists>tcl. build_tcl fmt self platform build_name synth_mode enable_xpm =
                 (tcl, Inr (build_name @ ''.tcl'', join ''\<newline>'' (map snd tcl))) \<and>
               sorted (map fst tcl) \<and>
               remdups_adj (map fst tcl) =
                 [1] @ (if enable_xpm then [2] else []) @ (if synth_mode = ''vivado'' then [3] else []) @
                 [4, 5, 6, 7, 8, 9, 10, 11, 12, 13, 14] \<and>
               tcl =
                 map (Pair 1)
                   [''\<newline># Create Project\<newline>'',
                    ''create_project -force -name '' @ build_name @ '' -part '' @ device platform,
                    ''set_msg_config -id {Common 17-55} -new_severity {Warning}''] @
                 map (Pair 2)
                   (if enable_xpm then
                      [''\<newline># Enable Xilinx Parameterized Macros\<newline>'',
                       ''set_property XPM_LIBRARIES {XPM_CDC XPM_MEMORY} [current_project]'']
                    else []) @
                 map (Pair 3)
                   (if synth_mode = ''vivado'' then
                      ''\<newline># Add Sources\<newline>'' #
                      concat (map (\<lambda>(filename, language, library).
                        if language = ''systemverilog'' then
                          [''read_verilog -v {'' @ filename @ ''}'',
                           ''set_property file_type SystemVerilog [get_files {'' @ filename @ ''}]'']
                        else if language = ''verilog'' then
                          [''read_verilog {'' @ filename @ ''}'']
                        else if language = ''vhdl'' then
                          [''read_vhdl -vhdl2008 {'' @ filename @ ''}'',
                           ''set_property library '' @ library @ '' [get_files {'' @ filename @ ''}]'']
                        else
                          [''add_files {'' @ filename @ ''}'']) (sources platform))
                    else []) @
                 map (Pair 4)
                   (''\<newline># Add EDIFs\<newline>'' #
                    map (\<lambda>filename. ''read_edif {'' @ filename @ ''}'') (edifs platform)) @
                 map (Pair 5)
                   (''\<newline># Add IPs\<newline>'' #
                    concat (map (\<lambda>(filename, disable_constraints).
                      [''read_ip {'' @ filename @ ''}'',
                       ''upgrade_ip [get_ips '' @ splitext_root (basename filename) @ '']'',
                       ''generate_target all [get_ips '' @ splitext_root (basename filename) @ '']'',
                       ''synth_ip [get_ips '' @ splitext_root (basename filename) @ ''] -force'',
                       ''get_files -all -of_objects [get_files {'' @ filename @ ''}]''] @
                      (if disable_constraints then
                         [''set_property is_enabled false [get_files -of_objects [get_files {'' @
                          filename @ ''}] -filter {FILE_TYPE == XDC}]'']
                       else [])) (ips platform))) @
                 map (Pair 6)
                   [''\<newline># Add constraints\<newline>'',
                    ''read_xdc '' @ build_name @ ''.xdc'',
                    ''set_property PROCESSING_ORDER EARLY [get_files '' @ build_name @ ''.xdc]''] @
                 map (Pair 7)
                   (''\<newline># Add pre-synthesis commands\<newline>'' #
                    map (\<lambda>c. case fmt c build_name of Inl e \<Rightarrow> [] | Inr line \<Rightarrow> line)
                      (pre_synthesis_commands self)) @
                 map (Pair 8)
                   ((if synth_mode = ''vivado'' then
                       [''\<newline># Synthesis\<newline>'',
                        ''synth_design -directive '' @ vivado_synth_directive self @ '' -top '' @
                        build_name @ '' -part '' @ device platform @
                        (if verilog_include_paths platform \<noteq> []
                         then '' -include_dirs {'' @ join '' '' (verilog_include_paths platform) @ ''}''
                         else [])]
                     else
                       [''\<newline># Read Yosys EDIF\<newline>'',
                        ''read_edif '' @ build_name @ ''.edif'',
                        ''link_design -top '' @ build_name @ '' -part '' @ device platform]) @
                    [''\<newline># Synthesis report\<newline>'',
                     ''report_timing_summary -file '' @ build_name @ ''_timing_synth.rpt'',
                     ''report_utilization -hierarchical -file '' @ build_name @
                     ''_utilization_hierarchical_synth.rpt'',
                     ''report_utilization -file '' @ build_name @ ''_utilization_synth.rpt'']) @
                 map (Pair 9)
                   [''\<newline># Optimize design\<newline>'',
                    ''opt_design -directive '' @ opt_directive self] @
                 map (Pair 10)
                   ((if incremental_implementation self then
                       [''\<newline># Read design checkpoint\<newline>'',
                        ''read_checkpoint -incremental '' @ build_name @ ''_route.dcp'']
                     else []) @
                    ''\<newline># Add pre-placement commands\<newline>'' #
                    map (\<lambda>c. case fmt c build_name of Inl e \<Rightarrow> [] | Inr line \<Rightarrow> line)
                      (pre_placement_commands self)) @
                 map (Pair 11)
                   ([''\<newline># Placement\<newline>'',
                     ''place_design -directive '' @ vivado_place_directive self] @
                    (case vivado_post_place_phys_opt_directive self of
                       None \<Rightarrow> []
                     | Some d \<Rightarrow> if d \<noteq> [] then [''phys_opt_design -directive '' @ d] else []) @
                    [''\<newline># Placement report\<newline>'',
                     ''report_utilization -hierarchical -file '' @ build_name @
                     ''_utilization_hierarchical_place.rpt'',
                     ''report_utilization -file '' @ build_name @ ''_utilization_place.rpt'',
                     ''report_io -file '' @ build_name @ ''_io.rpt'',
                     ''report_control_sets -verbose -file '' @ build_name @ ''_control_sets.rpt'',
                     ''report_clock_utilization -file '' @ build_name @ ''_clock_utilization.rpt'']) @
                 map (Pair 12)
                   (''\<newline># Add pre-routing commands\<newline>'' #
                    map (\<lambda>c. case fmt c build_name of Inl e \<Rightarrow> [] | Inr line \<Rightarrow> line)
                      (pre_routing_commands self)) @
                 map (Pair 13)
                   ([''\<newline># Routing\<newline>'',
                     ''route_design -directive '' @ vivado_route_directive self,
                     ''phys_opt_design -directive '' @ vivado_post_route_phys_opt_directive self,
                     ''write_checkpoint -force '' @ build_name @ ''_route.dcp'',
                     ''\<newline># Routing report\<newline>'',
                     ''report_timing_summary -no_header -no_detailed_paths'',
                     ''report_route_status -file '' @ build_name @ ''_route_status.rpt'',
                     ''report_drc -file '' @ build_name @ ''_drc.rpt'',
                     ''report_timing_summary -datasheet -max_paths 10 -file '' @ build_name @
                     ''_timing.rpt'',
                     ''report_power -file '' @ build_name @ ''_power.rpt''] @
                    map (\<lambda>c. case fmt c build_name of Inl e \<Rightarrow> [] | Inr line \<Rightarrow> line)
                      (bitstream_commands self)) @
                 map (Pair 14)
                   ([''\<newline># Bitstream generation\<newline>'',
                     ''write_bitstream -force '' @ build_name @ ''.bit ''] @
                    map (\<lambda>c. case fmt c build_name of Inl e \<Rightarrow> [] | Inr line \<Rightarrow> line)
                      (additional_commands self) @
                    [''\<newline># End\<newline>'', ''quit''])"
proof -
  let ?secs = "tcl_sections fmt self platform build_name synth_mode enable_xpm"
  let ?tcl = "concat (map (\<lambda>s. map (Pair (fst s)) (fst (snd s))) ?secs)"
  let ?sizes = "map (\<lambda>s. (fst s, length (fst (snd s)))) ?secs"
  have l1: "format_commands fmt build_name (pre_synthesis_commands self) =
              (map (\<lambda>c. case fmt c build_name of Inl e \<Rightarrow> [] | Inr line \<Rightarrow> line)
                 (pre_synthesis_commands self), None)"
    and l2: "format_commands fmt build_name (pre_placement_commands self) =
              (map (\<lambda>c. case fmt c build_name of Inl e \<Rightarrow> [] | Inr line \<Rightarrow> line)
                 (pre_placement_commands self), None)"
    and l3: "format_commands fmt build_name (pre_routing_commands self) =
              (map (\<lambda>c. case fmt c build_name of Inl e \<Rightarrow> [] | Inr line \<Rightarrow> line)
                 (pre_routing_commands self), None)"
    and l4: "format_commands fmt build_name (bitstream_commands self) =
              (map (\<lambda>c. case fmt c build_name of Inl e \<Rightarrow> [] | Inr line \<Rightarrow> line)
                 (bitstream_commands self), None)"
    and l5: "format_commands fmt build_name (additional_commands self) =
              (map (\<lambda>c. case fmt c build_name of Inl e \<Rightarrow> [] | Inr line \<Rightarrow> line)
                 (additional_commands self), None)"
    using hooks by (auto intro!: format_commands_lines)
  have f5: "snd (format_commands fmt build_name (additional_commands self)) = None"
    by (simp add: l5)
  have synth: "snd (tcl_synthesis self platform build_name synth_mode) = None"
    using mode by (auto simp: tcl_synthesis_def)
  have ok: "\<forall>s\<in>set ?secs. snd (snd s) = None"
    using synth tcl_bitstream_ok [OF f5]
    by (simp add: tcl_sections_def after_lines_def l1 l2 l3 l4 tcl_create_project_def
        tcl_enable_xpm_def tcl_add_sources_def tcl_add_edifs_def tcl_add_ips_def
        tcl_add_constraints_def tcl_pre_synthesis_def tcl_optimize_def tcl_pre_placement_def
        tcl_placement_def tcl_pre_routing_def tcl_routing_def)
  have run: "run_sections ?secs = (?tcl, None)"
    by (rule run_sections_all_ok [OF ok])
  have res: "build_tcl fmt self platform build_name synth_mode enable_xpm =
              (?tcl, Inr (build_name @ ''.tcl'', join ''\<newline>'' (map snd ?tcl)))"
    using mode by (auto simp: build_tcl_def run)
  have tags: "map fst ?tcl = concat (map (\<lambda>s. replicate (snd s) (fst s)) ?sizes)"
    by (rule map_fst_tagged)
  have strict: "sorted_wrt (<) (map fst ?sizes)"
    by (simp add: tcl_sections_def)
  have srt: "sorted (map fst ?tcl)"
    unfolding tags by (rule sorted_runs [OF strict])
  have present: "map fst (filter (\<lambda>s. 0 < snd s) ?sizes) =
                 [1] @ (if enable_xpm then [2] else []) @ (if synth_mode = ''vivado'' then [3] else []) @
                 [4, 5, 6, 7, 8, 9, 10, 11, 12, 13, 14]"
    using mode tcl_bitstream_ok [OF f5]
    by (auto simp: tcl_sections_def after_lines_length tcl_create_project_def
        tcl_enable_xpm_def tcl_add_sources_def tcl_add_edifs_def tcl_add_ips_def
        tcl_add_constraints_def tcl_pre_synthesis_def tcl_synthesis_def tcl_synthesis_report_def
        tcl_optimize_def tcl_pre_placement_def tcl_placement_def tcl_pre_routing_def tcl_routing_def)
  have rd: "remdups_adj (map fst ?tcl) =
                 [1] @ (if enable_xpm then [2] else []) @ (if synth_mode = ''vivado'' then [3] else []) @
                 [4, 5, 6, 7, 8, 9, 10, 11, 12, 13, 14]"
    unfolding tags remdups_adj_runs [OF strict] by (rule present)
  have s1: "fst (tcl_create_project platform build_name) =
              [''\<newline># Create Project\<newline>'',
               ''create_project -force -name '' @ build_name @ '' -part '' @ device platform,
               ''set_msg_config -id {Common 17-55} -new_severity {Warning}'']"
    by (simp add: tcl_create_project_def)
  have contents: "?tcl =
                 map (Pair 1)
                   [''\<newline># Create Project\<newline>'',
                    ''create_project -force -name '' @ build_name @ '' -part '' @ device platform,
                    ''set_msg_config -id {Common 17-55} -new_severity {Warning}''] @
                 map (Pair 2)
                   (if enable_xpm then
                      [''\<newline># Enable Xilinx Parameterized Macros\<newline>'',
                       ''set_property XPM_LIBRARIES {XPM_CDC XPM_MEMORY} [current_project]'']
                    else []) @
                 map (Pair 3)
                   (if synth_mode = ''vivado'' then
                      ''\<newline># Add Sources\<newline>'' #
                      concat (map (\<lambda>(filename, language, library).
                        if language = ''systemverilog'' then
                          [''read_verilog -v {'' @ filename @ ''}'',
                           ''set_property file_type SystemVerilog [get_files {'' @ filename @ ''}]'']
                        else if language = ''verilog'' then
                          [''read_verilog {'' @ filename @ ''}'']
                        else if language = ''vhdl'' then
                          [''read_vhdl -vhdl2008 {'' @ filename @ ''}'',
                           ''set_property library '' @ library @ '' [get_files {'' @ filename @ ''}]'']
                        else
                          [''add_files {'' @ filename @ ''}'']) (sources platform))
                    else []) @
                 map (Pair 4)
                   (''\<newline># Add EDIFs\<newline>'' #
                    map (\<lambda>filename. ''read_edif {'' @ filename @ ''}'') (edifs platform)) @
                 map (Pair 5)
                   (''\<newline># Add IPs\<newline>'' #
                    concat (map (\<lambda>(filename, disable_constraints).
                      [''read_ip {'' @ filename @ ''}'',
                       ''upgrade_ip [get_ips '' @ splitext_root (basename filename) @ '']'',
                       ''generate_target all [get_ips '' @ splitext_root (basename filename) @ '']'',
                       ''synth_ip [get_ips '' @ splitext_root (basename filename) @ ''] -force'',
                       ''get_files -all -of_objects [get_files {'' @ filename @ ''}]''] @
                      (if disable_constraints then
                         [''set_property is_enabled false [get_files -of_objects [get_files {'' @
                          filename @ ''}] -filter {FILE_TYPE == XDC}]'']
                       else [])) (ips platform))) @
                 map (Pair 6)
                   [''\<newline># Add constraints\<newline>'',
                    ''read_xdc '' @ build_name @ ''.xdc'',
                    ''set_property PROCESSING_ORDER EARLY [get_files '' @ build_name @ ''.xdc]''] @
                 map (Pair 7)
                   (''\<newline># Add pre-synthesis commands\<newline>'' #
                    map (\<lambda>c. case fmt c build_name of Inl e \<Rightarrow> [] | Inr line \<Rightarrow> line)
                      (pre_synthesis_commands self)) @
                 map (Pair 8)
                   ((if synth_mode = ''vivado'' then
                       [''\<newline># Synthesis\<newline>'',
                        ''synth_design -directive '' @ vivado_synth_directive self @ '' -top '' @
                        build_name @ '' -part '' @ device platform @
                        (if verilog_include_paths platform \<noteq> []
                         then '' -include_dirs {'' @ join '' '' (verilog_include_paths platform) @ ''}''
                         else [])]
                     else
                       [''\<newline># Read Yosys EDIF\<newline>'',
                        ''read_edif '' @ build_name @ ''.edif'',
                        ''link_design -top '' @ build_name @ '' -part '' @ device platform]) @
                    [''\<newline># Synthesis report\<newline>'',
                     ''report_timing_summary -file '' @ build_name @ ''_timing_synth.rpt'',
                     ''report_utilization -hierarchical -file '' @ build_name @
                     ''_utilization_hierarchical_synth.rpt'',
                     ''report_utilization -file '' @ build_name @ ''_utilization_synth.rpt'']) @
                 map (Pair 9)
                   [''\<newline># Optimize design\<newline>'',
                    ''opt_design -directive '' @ opt_directive self] @
                 map (Pair 10)
                   ((if incremental_implementation self then
                       [''\<newline># Read design checkpoint\<newline>'',
                        ''read_checkpoint -incremental '' @ build_name @ ''_route.dcp'']
                     else []) @
                    ''\<newline># Add pre-placement commands\<newline>'' #
                    map (\<lambda>c. case fmt c build_name of Inl e \<Rightarrow> [] | Inr line \<Rightarrow> line)
                      (pre_placement_commands self)) @
                 map (Pair 11)
                   ([''\<newline># Placement\<newline>'',
                     ''place_design -directive '' @ vivado_place_directive self] @
                    (case vivado_post_place_phys_opt_directive self of
                       None \<Rightarrow> []
                     | Some d \<Rightarrow> if d \<noteq> [] then [''phys_opt_design -directive '' @ d] else []) @
                    [''\<newline># Placement report\<newline>'',
                     ''report_utilization -hierarchical -file '' @ build_name @
                     ''_utilization_hierarchical_place.rpt'',
                     ''report_utilization -file '' @ build_name @ ''_utilization_place.rpt'',
                     ''report_io -file '' @ build_name @ ''_io.rpt'',
                     ''report_control_sets -verbose -file '' @ build_name @ ''_control_sets.rpt'',
                     ''report_clock_utilization -file '' @ build_name @ ''_clock_utilization.rpt'']) @
                 map (Pair 12)
                   (''\<newline># Add pre-routing commands\<newline>'' #
                    map (\<lambda>c. case fmt c build_name of Inl e \<Rightarrow> [] | Inr line \<Rightarrow> line)
                      (pre_routing_commands self)) @
                 map (Pair 13)
                   ([''\<newline># Routing\<newline>'',
                     ''route_design -directive '' @ vivado_route_directive self,
                     ''phys_opt_design -directive '' @ vivado_post_route_phys_opt_directive self,
                     ''write_checkpoint -force '' @ build_name @ ''_route.dcp'',
                     ''\<newline># Routing report\<newline>'',
                     ''report_timing_summary -no_header -no_detailed_paths'',
                     ''report_route_status -file '' @ build_name @ ''_route_status.rpt'',
                     ''report_drc -file '' @ build_name @ ''_drc.rpt'',
                     ''report_timing_summary -datasheet -max_paths 10 -file '' @ build_name @
                     ''_timing.rpt'',
                     ''report_power -file '' @ build_name @ ''_power.rpt''] @
                    map (\<lambda>c. case fmt c build_name of Inl e \<Rightarrow> [] | Inr line \<Rightarrow> line)
                      (bitstream_commands self)) @
                 map (Pair 14)
                   ([''\<newline># Bitstream generation\<newline>'',
                     ''write_bitstream -force '' @ build_name @ ''.bit ''] @
                    map (\<lambda>c. case fmt c build_name of Inl e \<Rightarrow> [] | Inr line \<Rightarrow> line)
                      (additional_commands self) @
                    [''\<newline># End\<newline>'', ''quit''])"
    using mode
    by (simp add: tcl_sections_def tcl_create_project_def tcl_enable_xpm_def tcl_add_sources_def
        source_commands_fun tcl_add_edifs_def tcl_add_ips_def ip_commands_fun
        tcl_add_constraints_def tcl_pre_synthesis_def tcl_synthesis_def tcl_synthesis_report_def
        tcl_optimize_def tcl_pre_placement_def tcl_placement_def tcl_pre_routing_def
        tcl_routing_def tcl_bitstream_def after_lines_def l1 l2 l3 l4 l5 Let_def)
       blast
  from res srt rd contents show ?thesis
    by blast
qed

text \<open>
  The build \<open>top\<close> of the example platform with Vivado synthesis, one pre-synthesis
  command and one additional command: the whole script.
\<close>

theorem build_tcl_stage_order_witness:
  "''vivado'' \<in> {''vivado'', ''yosys''} \<and>
   (\<exists>tcl. build_tcl format_build_name example_toolchain example_platform ''top'' ''vivado'' False =
            (tcl, Inr (''top.tcl'', join ''\<newline>'' (map snd tcl))) \<and>
          sorted (map fst tcl) \<and>
          remdups_adj (map fst tcl) = [1, 3, 4, 5, 6, 7, 8, 9, 10, 11, 12, 13, 14] \<and>
          map snd tcl =
            [''\<newline># Create Project\<newline>'',
             ''create_project -force -name top -part xc7a35t'',
             ''set_msg_config -id {Common 17-55} -new_severity {Warning}'',
             ''\<newline># Add Sources\<newline>'',
             ''read_verilog {top.v}'',
             ''\<newline># Add EDIFs\<newline>'',
             ''\<newline># Add IPs\<newline>'',
             ''\<newline># Add constraints\<newline>'',
             ''read_xdc top.xdc'',
             ''set_property PROCESSING_ORDER EARLY [get_files top.xdc]'',
             ''\<newline># Add pre-synthesis commands\<newline>'',
             ''set_param general.maxThreads 4'',
             ''\<newline># Synthesis\<newline>'',
             ''synth_design -directive default -top top -part xc7a35t'',
             ''\<newline># Synthesis report\<newline>'',
             ''report_timing_summary -file top_timing_synth.rpt'',
             ''report_utilization -hierarchical -file top_utilization_hierarchical_synth.rpt'',
             ''report_utilization -file top_utilization_synth.rpt'',
             ''\<newline># Optimize design\<newline>'',
             ''opt_design -directive default'',
             ''\<newline># Add pre-placement commands\<newline>'',
             ''\<newline># Placement\<newline>'',
             ''place_design -directive default'',
             ''\<newline># Placement report\<newline>'',
             ''report_utilization -hierarchical -file top_utilization_hierarchical_place.rpt'',
             ''report_utilization -file top_utilization_place.rpt'',
             ''report_io -file top_io.rpt'',
             ''report_control_sets -verbose -file top_control_sets.rpt'',
             ''report_clock_utilization -file top_clock_utilization.rpt'',
             ''\<newline># Add pre-routing commands\<newline>'',
             ''\<newline># Routing\<newline>'',
             ''route_design -directive default'',
             ''phys_opt_design -directive default'',
             ''write_checkpoint -force top_route.dcp'',
             ''\<newline># Routing report\<newline>'',
             ''report_timing_summary -no_header -no_detailed_paths'',
             ''report_route_status -file top_route_status.rpt'',
             ''report_drc -file top_drc.rpt'',
             ''report_timing_summary -datasheet -max_paths 10 -file top_timing.rpt'',
             ''report_power -file top_power.rpt'',
             ''\<newline># Bitstream generation\<newline>'',
             ''write_bitstream -force top.bit '',
             ''write_cfgmem -force -format bin -loadbit {up 0x0 top.bit}'',
             ''\<newline># End\<newline>'',
             ''quit''])"
proof -
  have mode: "''vivado'' \<in> {''vivado'', ''yosys''}"
    by simp
  have hooks: "\<forall>c \<in> set (pre_synthesis_commands example_toolchain @
                  pre_placement_commands example_toolchain @
                  pre_routing_commands example_toolchain @ bitstream_commands example_toolchain @
                  additional_commands example_toolchain).
      \<exists>line. format_build_name c ''top'' = Inr line"
    by (simp add: example_toolchain_def init_toolchain_def)
  show ?thesis
    using mode
      build_tcl_stage_order [where synth_mode = "''vivado''" and self = example_toolchain
        and fmt = format_build_name and build_name = "''top''" and platform = example_platform
        and enable_xpm = False, OF mode hooks]
    by (auto simp: example_toolchain_def init_toolchain_def example_platform_def)
qed

lemma example_hook:
  "format_build_name ''write_cfgmem -force -format bin -loadbit {{up 0x0 {build_name}.bit}}'' ''top'' =
     Inr ''write_cfgmem -force -format bin -loadbit {up 0x0 top.bit}''"
  by simp

section \<open>Properties of the timing constraints\<close>

lemma add_false_path_result:
  "false_paths self = Some fp \<Longrightarrow>
   add_false_path_constraint self pl f t =
     (None, (add_keep t (add_keep f self))
              \<lparr>false_paths := Some (if (t, f) |\<notin>| fp then finsert (f, t) fp else fp)\<rparr>)"
  by (simp add: add_false_path_constraint_def add_keep_def Let_def)

lemma asym_step:
  fixes fp :: "(clk \<times> clk) fset"
  assumes "\<forall>a b. a \<noteq> b \<longrightarrow> (a, b) |\<in>| fp \<longrightarrow> (b, a) |\<notin>| fp"
  shows "\<forall>a b. a \<noteq> b \<longrightarrow> (a, b) |\<in>| (if (t, f) |\<notin>| fp then finsert (f, t) fp else fp) \<longrightarrow>
           (b, a) |\<notin>| (if (t, f) |\<notin>| fp then finsert (f, t) fp else fp)"
proof (cases "(t, f) |\<in>| fp")
  case True
  with assms show ?thesis by simp
next
  case False
  show ?thesis
  proof (intro allI impI)
    fix a b :: clk
    assume ne: "a \<noteq> b"
      and ab: "(a, b) |\<in>| (if (t, f) |\<notin>| fp then finsert (f, t) fp else fp)"
    from ab False have ab': "(a, b) = (f, t) \<or> (a, b) |\<in>| fp" by simp
    have "(b, a) \<noteq> (f, t)"
    proof
      assume "(b, a) = (f, t)"
      with ab' ne False show False by blast
    qed
    moreover have "(b, a) |\<notin>| fp"
    proof
      assume ba: "(b, a) |\<in>| fp"
      from ab' show False
      proof
        assume "(a, b) = (f, t)"
        with ba False show False by simp
      next
        assume "(a, b) |\<in>| fp"
        with assms ne ba show False by blast
      qed
    qed
    ultimately show "(b, a) |\<notin>| (if (t, f) |\<notin>| fp then finsert (f, t) fp else fp)"
      using False by simp
  qed
qed


lemma fold_false_paths:
  fixes fp :: "(clk \<times> clk) fset"
  assumes "false_paths self = Some fp"
    and "\<forall>a b. a \<noteq> b \<longrightarrow> (a, b) |\<in>| fp \<longrightarrow> (b, a) |\<notin>| fp"
  shows "\<exists>fp'. false_paths (fold (\<lambda>c s. snd (add_false_path_constraint s pl (fst c) (snd c))) calls self) = Some fp' \<and>
           (\<forall>a b. a \<noteq> b \<longrightarrow> (a, b) |\<in>| fp' \<longrightarrow> (b, a) |\<notin>| fp') \<and>
           fp |\<subseteq>| fp' \<and>
           (\<forall>c \<in> set calls. c |\<in>| fp' \<or> (snd c, fst c) |\<in>| fp')"
  using assms
proof (induction calls arbitrary: self fp)
  case Nil
  then show ?case by simp
next
  case (Cons c calls)
  let ?fp1 = "if (snd c, fst c) |\<notin>| fp then finsert (fst c, snd c) fp else fp"
  let ?s1 = "snd (add_false_path_constraint self pl (fst c) (snd c))"
  have s1: "false_paths ?s1 = Some ?fp1"
    by (simp add: add_false_path_result [OF Cons.prems(1)])
  have inv1: "\<forall>a b. a \<noteq> b \<longrightarrow> (a, b) |\<in>| ?fp1 \<longrightarrow> (b, a) |\<notin>| ?fp1"
    by (rule asym_step [OF Cons.prems(2)])
  from Cons.IH [OF s1 inv1] obtain fp' where
    r: "false_paths (fold (\<lambda>c s. snd (add_false_path_constraint s pl (fst c) (snd c))) calls ?s1) = Some fp'"
    and i: "\<forall>a b. a \<noteq> b \<longrightarrow> (a, b) |\<in>| fp' \<longrightarrow> (b, a) |\<notin>| fp'"
    and sub: "?fp1 |\<subseteq>| fp'"
    and mem: "\<forall>c \<in> set calls. c |\<in>| fp' \<or> (snd c, fst c) |\<in>| fp'"
    by blast
  have "fp |\<subseteq>| ?fp1"
    by (simp add: fsubset_finsertI)
  with sub have sub': "fp |\<subseteq>| fp'"
    by (rule order_trans [rotated])
  have "(fst c, snd c) |\<in>| ?fp1 \<or> (snd c, fst c) |\<in>| ?fp1"
    by simp
  with sub have here: "c |\<in>| fp' \<or> (snd c, fst c) |\<in>| fp'"
    by (metis fsubsetD prod.collapse)
  have fold_eq: "fold (\<lambda>c s. snd (add_false_path_constraint s pl (fst c) (snd c))) (c # calls) self =
                 fold (\<lambda>c s. snd (add_false_path_constraint s pl (fst c) (snd c))) calls ?s1"
    by simp
  have mem': "\<forall>d \<in> set (c # calls). d |\<in>| fp' \<or> (snd d, fst d) |\<in>| fp'"
    using mem here by simp
  show ?case
    unfolding fold_eq using r i sub' mem' by blast
qed

lemma filter_one:
  assumes "distinct xs" and "x \<in> set xs" and "y \<notin> set xs"
  shows "length (filter (\<lambda>p. p = x \<or> p = y) xs) = 1"
proof -
  have "filter (\<lambda>p. p = x \<or> p = y) xs = filter (\<lambda>p. p = x) xs"
    using assms(3) by (intro filter_cong) auto
  also have "filter (\<lambda>p. p = x) xs = [x]"
    using assms(1,2) by (induction xs) (auto simp: filter_empty_conv)
  finally show ?thesis by simp
qed


lemma commands_create_clocks:
  "map snd (commands (fold (create_clock_command fs) items p)) =
     map snd (commands p) @ map (\<lambda>item. [(''clk'', fst item)]) items"
proof (induction items arbitrary: p)
  case Nil
  show ?case by simp
next
  case (Cons item items)
  have "map snd (commands (create_clock_command fs item p)) =
          map snd (commands p) @ [[(''clk'', fst item)]]"
    by (cases item) (simp add: create_clock_command_def add_platform_command_def)
  then show ?case
    by (simp add: Cons.IH)
qed

lemma commands_clock_groups:
  "map snd (commands (fold clock_groups_command pairs p)) =
     map snd (commands p) @ map (\<lambda>pair. [(''from_'', fst pair), (''to'', snd pair)]) pairs"
proof (induction pairs arbitrary: p)
  case Nil
  show ?case by simp
next
  case (Cons pair pairs)
  have "map snd (commands (clock_groups_command pair p)) =
          map snd (commands p) @ [[(''from_'', fst pair), (''to'', snd pair)]]"
    by (cases pair) (simp add: clock_groups_command_def add_platform_command_def)
  then show ?case
    by (simp add: Cons.IH)
qed

lemma fold_false_paths_clocks:
  "clocks (fold (\<lambda>c s. snd (add_false_path_constraint s pl (fst c) (snd c))) calls self) = clocks self"
proof (induction calls arbitrary: self)
  case Nil
  show ?case by simp
next
  case (Cons c calls)
  have "clocks (snd (add_false_path_constraint self pl (fst c) (snd c))) = clocks self"
    by (simp add: add_false_path_constraint_def add_keep_def Let_def split: option.splits)
  then show ?case
    by (simp add: Cons.IH)
qed

lemma build_clock_constraints_open:
  assumes "clocks self = Some cs" and "false_paths self = Some fp"
  shows "build_clock_constraints fs self p =
           (None, self\<lparr>clocks := None, false_paths := None\<rparr>,
            fold clock_groups_command (sorted_list_of_fset fp)
              (fold (create_clock_command fs) (sort_key fst cs)
                 (add_platform_command (xdc_separator ''Clock constraints'') [] p)))"
  using assms by (simp add: build_clock_constraints_def Let_def)

text \<open>
  C6. Take a registry whose set of false paths never holds a pair together with its
  reverse (the new registry does, and every registration keeps it so), and any sequence of
  false-path registrations in which \<open>(A, B)\<close> is registered, with \<open>A\<close> and \<open>B\<close> distinct.
  Then exactly one of \<open>(A, B)\<close> and \<open>(B, A)\<close> is in the set, whatever was registered
  before or after, the sorted set has exactly one entry for the pair, and draining adds
  exactly one \<open>set_clock_groups\<close> command for the two clocks.
\<close>

theorem false_path_symmetric:
  fixes fp0 :: "(clk \<times> clk) fset"
  assumes ne: "A \<noteq> B"
    and call: "(A, B) \<in> set calls"
    and fp0: "false_paths self = Some fp0"
    and inv0: "\<forall>a b. a \<noteq> b \<longrightarrow> (a, b) |\<in>| fp0 \<longrightarrow> (b, a) |\<notin>| fp0"
    and cs: "clocks self = Some cs"
  shows "\<exists>fp self' p'.
           false_paths (fold (\<lambda>c s. snd (add_false_path_constraint s pl (fst c) (snd c))) calls self) = Some fp \<and>
           ((A, B) |\<in>| fp) \<noteq> ((B, A) |\<in>| fp) \<and>
           length (filter (\<lambda>pair. pair = (A, B) \<or> pair = (B, A)) (sorted_list_of_fset fp)) = 1 \<and>
           build_clock_constraints fs
             (fold (\<lambda>c s. snd (add_false_path_constraint s pl (fst c) (snd c))) calls self) p =
             (None, self', p') \<and>
           length (filter (\<lambda>c. snd c = [(''from_'', A), (''to'', B)] \<or> snd c = [(''from_'', B), (''to'', A)])
                     (commands p')) =
           length (filter (\<lambda>c. snd c = [(''from_'', A), (''to'', B)] \<or> snd c = [(''from_'', B), (''to'', A)])
                     (commands p)) + 1"
proof -
  let ?final = "fold (\<lambda>c s. snd (add_false_path_constraint s pl (fst c) (snd c))) calls self"
  let ?Q = "\<lambda>sigs. sigs = [(''from_'', A), (''to'', B)] \<or> sigs = [(''from_'', B), (''to'', A)]"
  let ?g = "\<lambda>pair :: clk \<times> clk. [(''from_'', fst pair), (''to'', snd pair)]"
  from fold_false_paths [OF fp0 inv0, of pl calls] obtain fp where
    fin: "false_paths ?final = Some fp"
    and inv: "\<forall>a b. a \<noteq> b \<longrightarrow> (a, b) |\<in>| fp \<longrightarrow> (b, a) |\<notin>| fp"
    and mem: "\<forall>c \<in> set calls. c |\<in>| fp \<or> (snd c, fst c) |\<in>| fp"
    by blast
  from mem call have some: "(A, B) |\<in>| fp \<or> (B, A) |\<in>| fp"
    by fastforce
  from inv ne have notboth: "\<not> ((A, B) |\<in>| fp \<and> (B, A) |\<in>| fp)"
    by blast
  from some notboth have one: "((A, B) |\<in>| fp) \<noteq> ((B, A) |\<in>| fp)"
    by blast
  have d: "distinct (sorted_list_of_fset fp)"
    by (simp add: sorted_list_of_fset.rep_eq)
  have cnt: "length (filter (\<lambda>pair. pair = (A, B) \<or> pair = (B, A)) (sorted_list_of_fset fp)) = 1"
  proof (cases "(A, B) |\<in>| fp")
    case True
    with notboth have "(B, A) |\<notin>| fp" by blast
    with True show ?thesis
      using filter_one [OF d, of "(A, B)" "(B, A)"] by simp
  next
    case False
    with some have ba: "(B, A) |\<in>| fp" by blast
    have "(\<lambda>pair. pair = (A, B) \<or> pair = (B, A)) = (\<lambda>pair. pair = (B, A) \<or> pair = (A, B))"
      by auto
    with False ba show ?thesis
      using filter_one [OF d, of "(B, A)" "(A, B)"] by simp
  qed
  have cl: "clocks ?final = Some cs"
    by (simp add: fold_false_paths_clocks cs)
  let ?p' = "fold clock_groups_command (sorted_list_of_fset fp)
              (fold (create_clock_command fs) (sort_key fst cs)
                 (add_platform_command (xdc_separator ''Clock constraints'') [] p))"
  have drain: "build_clock_constraints fs ?final p =
                 (None, ?final\<lparr>clocks := None, false_paths := None\<rparr>, ?p')"
    by (rule build_clock_constraints_open [OF cl fin])
  have sigs: "map snd (commands ?p') =
                map snd (commands p) @ [[]] @ map (\<lambda>item. [(''clk'', fst item)]) (sort_key fst cs) @
                map ?g (sorted_list_of_fset fp)"
    by (simp add: commands_clock_groups commands_create_clocks add_platform_command_def)
  have none_clk: "filter ?Q (map (\<lambda>item. [(''clk'', fst item)]) (sort_key fst cs)) = []"
    by (simp add: filter_empty_conv)
  have Qg: "\<And>pair. ?Q (?g pair) \<longleftrightarrow> pair = (A, B) \<or> pair = (B, A)"
    by (auto simp: prod_eq_iff)
  have groups: "length (filter ?Q (map ?g (sorted_list_of_fset fp))) = 1"
    unfolding filter_map comp_def Qg using cnt by simp
  have "length (filter (\<lambda>c. ?Q (snd c)) (commands ?p')) = length (filter ?Q (map snd (commands ?p')))"
    by (simp add: filter_map comp_def)
  also have "\<dots> = length (filter ?Q (map snd (commands p))) + 1"
    unfolding sigs using none_clk groups by simp
  also have "length (filter ?Q (map snd (commands p))) = length (filter (\<lambda>c. ?Q (snd c)) (commands p))"
    by (simp add: filter_map comp_def)
  finally have count: "length (filter (\<lambda>c. ?Q (snd c)) (commands ?p')) =
                       length (filter (\<lambda>c. ?Q (snd c)) (commands p)) + 1" .
  from fin one cnt drain count show ?thesis
    by blast
qed

text \<open>The calls \<open>(1, 2)\<close>, \<open>(2, 1)\<close>, \<open>(1, 2)\<close> on a new registry.\<close>

theorem false_path_symmetric_witness:
  "(1 :: clk) \<noteq> 2 \<and>
   (1 :: clk, 2 :: clk) \<in> set [(1, 2), (2, 1), (1, 2)] \<and>
   false_paths example_toolchain = Some {||} \<and>
   clocks example_toolchain = Some [] \<and>
   (\<exists>fp self' p'.
      false_paths (fold (\<lambda>c s. snd (add_false_path_constraint s example_platform (fst c) (snd c)))
                     [(1, 2), (2, 1), (1, 2)] example_toolchain) = Some fp \<and>
      ((1, 2) |\<in>| fp) \<noteq> ((2, 1) |\<in>| fp) \<and>
      length (filter (\<lambda>pair. pair = (1, 2) \<or> pair = (2, 1)) (sorted_list_of_fset fp)) = 1 \<and>
      build_clock_constraints (\<lambda>x. ''10.0'')
        (fold (\<lambda>c s. snd (add_false_path_constraint s example_platform (fst c) (snd c)))
           [(1, 2), (2, 1), (1, 2)] example_toolchain) example_platform = (None, self', p') \<and>
      length (filter (\<lambda>c. snd c = [(''from_'', 1), (''to'', 2)] \<or> snd c = [(''from_'', 2), (''to'', 1)])
                (commands p')) =
      length (filter (\<lambda>c. snd c = [(''from_'', 1), (''to'', 2)] \<or> snd c = [(''from_'', 2), (''to'', 1)])
                (commands example_platform)) + 1)"
proof -
  have h1: "(1 :: clk) \<noteq> 2"
    by simp
  have h2: "(1 :: clk, 2 :: clk) \<in> set [(1, 2), (2, 1), (1, 2)]"
    by simp
  have h3: "false_paths example_toolchain = Some {||}"
    by (simp add: example_toolchain_def init_toolchain_def)
  have h4: "\<forall>a b :: clk. a \<noteq> b \<longrightarrow> (a, b) |\<in>| {||} \<longrightarrow> (b, a) |\<notin>| {||}"
    by simp
  have h5: "clocks example_toolchain = Some []"
    by (simp add: example_toolchain_def init_toolchain_def)
  from false_path_symmetric [OF h1 h2 h3 h4 h5, of example_platform "\<lambda>x. ''10.0''" example_platform]
  show ?thesis
    using h1 h2 h3 h4 h5 by blast
qed

lemma binary64_not_NaN: "binary64 q \<noteq> NaN"
  by (simp add: binary64_def Let_def)

lemma round_period_not_NaN: "round_period p = Inr r \<Longrightarrow> r \<noteq> NaN"
  by (auto simp: round_period_def int_div_1e3_def binary64_not_NaN
      split: sum.splits pyfloat.splits)

lemma add_keep_fields:
  "clocks (add_keep c s) = clocks s" "false_paths (add_keep c s) = false_paths s"
  by (simp_all add: add_keep_def)

lemma add_keep_idem: "add_keep c (add_keep c s) = add_keep c s"
  by (simp add: add_keep_def)

lemma add_period_finalized:
  assumes "clocks s = None"
  shows "add_period_constraint s pl c period =
           (Some (case round_period period of Inl e \<Rightarrow> e | Inr r \<Rightarrow> AttributeError ''clocks''),
            add_keep c s)"
  using assms
  by (simp add: add_period_constraint_def Let_def add_keep_fields split: sum.splits)

lemma add_false_path_finalized:
  assumes "false_paths s = None"
  shows "add_false_path_constraint s pl f t =
           (Some (AttributeError ''false_paths''), add_keep t (add_keep f s))"
  using assms
  by (simp add: add_false_path_constraint_def Let_def add_keep_fields)

lemma build_clock_constraints_finalized:
  assumes "clocks s = None"
  shows "build_clock_constraints fs s q =
           (Some (AttributeError ''clocks''), s,
            add_platform_command (xdc_separator ''Clock constraints'') [] q)"
  using assms by (simp add: build_clock_constraints_def Let_def)

lemma build_clock_constraints_returns:
  assumes "build_clock_constraints fs self p = (None, self', p')"
  shows "clocks self' = None \<and> false_paths self' = None"
  using assms
  by (auto simp: build_clock_constraints_def Let_def split: option.splits)

lemma example_drain:
  "build_clock_constraints fs example_toolchain pl =
     (None, example_toolchain\<lparr>clocks := None, false_paths := None\<rparr>,
      add_platform_command (xdc_separator ''Clock constraints'') [] pl)"
proof -
  have c: "clocks example_toolchain = Some []" and f: "false_paths example_toolchain = Some {||}"
    by (simp_all add: example_toolchain_def init_toolchain_def)
  show ?thesis
    by (simp add: build_clock_constraints_open [OF c f] sorted_list_of_fset.rep_eq)
qed

lemma example_makedirs: "makedirs example_collaborators d = None"
  by (simp add: example_collaborators_def)

text \<open>
  C4, as the code has it. When \<open>_build_clock_constraints\<close> has returned, \<open>clocks\<close> and
  \<open>false_paths\<close> are deleted. On a registry in that state every registration raises and
  leaves it in that state, and a second draining raises too, so a registry is drained at
  most once. A false-path registration and a second draining raise the \<open>AttributeError\<close>
  of the deleted attribute. A period registration rounds the period before it reads
  \<open>clocks\<close>: it raises the \<open>AttributeError\<close> when the rounding returns, and the error of the
  rounding itself otherwise.
\<close>

theorem finalized_registry_faults:
  assumes "build_clock_constraints fs self p = (None, self', p')"
  shows "clocks self' = None \<and> false_paths self' = None \<and>
         (\<forall>s :: toolchain. clocks s = None \<and> false_paths s = None \<longrightarrow>
            (\<forall>pl c period.
               add_period_constraint s pl c period =
                 (Some (case round_period period of
                          Inl e \<Rightarrow> e
                        | Inr r \<Rightarrow> AttributeError ''clocks''),
                  add_keep c s) \<and>
               clocks (add_keep c s) = None \<and> false_paths (add_keep c s) = None) \<and>
            (\<forall>pl f t.
               add_false_path_constraint s pl f t =
                 (Some (AttributeError ''false_paths''), add_keep t (add_keep f s)) \<and>
               clocks (add_keep t (add_keep f s)) = None \<and>
               false_paths (add_keep t (add_keep f s)) = None) \<and>
            (\<forall>fs2 q.
               build_clock_constraints fs2 s q =
                 (Some (AttributeError ''clocks''), s,
                  add_platform_command (xdc_separator ''Clock constraints'') [] q)))"
proof (intro conjI allI impI)
  show "clocks self' = None" "false_paths self' = None"
    using build_clock_constraints_returns [OF assms] by simp_all
next
  fix s :: toolchain and pl c period
  assume fin: "clocks s = None \<and> false_paths s = None"
  show "add_period_constraint s pl c period =
          (Some (case round_period period of
                   Inl e \<Rightarrow> e
                 | Inr r \<Rightarrow> AttributeError ''clocks''),
           add_keep c s)"
    using fin by (simp add: add_period_finalized)
  show "clocks (add_keep c s) = None" "false_paths (add_keep c s) = None"
    using fin by (simp_all add: add_keep_fields)
next
  fix s :: toolchain and pl f t
  assume fin: "clocks s = None \<and> false_paths s = None"
  show "add_false_path_constraint s pl f t =
          (Some (AttributeError ''false_paths''), add_keep t (add_keep f s))"
    using fin by (simp add: add_false_path_finalized)
  show "clocks (add_keep t (add_keep f s)) = None" "false_paths (add_keep t (add_keep f s)) = None"
    using fin by (simp_all add: add_keep_fields)
next
  fix s :: toolchain and fs2 q
  assume fin: "clocks s = None \<and> false_paths s = None"
  show "build_clock_constraints fs2 s q =
          (Some (AttributeError ''clocks''), s,
           add_platform_command (xdc_separator ''Clock constraints'') [] q)"
    using fin by (simp add: build_clock_constraints_finalized)
qed

text \<open>Draining the example registry, then one call of each operation.\<close>

theorem finalized_registry_faults_witness:
  "build_clock_constraints (\<lambda>x. ''10.0'') example_toolchain example_platform =
     (None, example_toolchain\<lparr>clocks := None, false_paths := None\<rparr>,
      add_platform_command (xdc_separator ''Clock constraints'') [] example_platform) \<and>
   add_period_constraint (example_toolchain\<lparr>clocks := None, false_paths := None\<rparr>)
     example_platform 0 (Finite 10) =
     (Some (AttributeError ''clocks''),
      add_keep 0 (example_toolchain\<lparr>clocks := None, false_paths := None\<rparr>)) \<and>
   add_false_path_constraint (example_toolchain\<lparr>clocks := None, false_paths := None\<rparr>)
     example_platform 0 1 =
     (Some (AttributeError ''false_paths''),
      add_keep 1 (add_keep 0 (example_toolchain\<lparr>clocks := None, false_paths := None\<rparr>))) \<and>
   build_clock_constraints (\<lambda>x. ''10.0'') (example_toolchain\<lparr>clocks := None, false_paths := None\<rparr>)
     example_platform =
     (Some (AttributeError ''clocks''), example_toolchain\<lparr>clocks := None, false_paths := None\<rparr>,
      add_platform_command (xdc_separator ''Clock constraints'') [] example_platform)"
proof -
  let ?s = "example_toolchain\<lparr>clocks := None, false_paths := None\<rparr>"
  have drain: "build_clock_constraints (\<lambda>x. ''10.0'') example_toolchain example_platform =
     (None, ?s, add_platform_command (xdc_separator ''Clock constraints'') [] example_platform)"
    by (rule example_drain)
  have r: "round_period (Finite 10) = Inr (Finite 10)"
    by code_simp
  have fin: "clocks ?s = None \<and> false_paths ?s = None"
    by simp
  from finalized_registry_faults [OF drain] fin
  have a: "add_period_constraint ?s example_platform 0 (Finite 10) =
             (Some (case round_period (Finite 10) of
                      Inl e \<Rightarrow> e
                    | Inr r \<Rightarrow> AttributeError ''clocks''),
              add_keep 0 ?s)"
    and b: "add_false_path_constraint ?s example_platform 0 1 =
              (Some (AttributeError ''false_paths''), add_keep 1 (add_keep 0 ?s))"
    and d: "build_clock_constraints (\<lambda>x. ''10.0'') ?s example_platform =
              (Some (AttributeError ''clocks''), ?s,
               add_platform_command (xdc_separator ''Clock constraints'') [] example_platform)"
    by blast+
  from a r have a': "add_period_constraint ?s example_platform 0 (Finite 10) =
                       (Some (AttributeError ''clocks''), add_keep 0 ?s)"
    by simp
  from drain a' b d show ?thesis
    by blast
qed

text \<open>
  C4 as stated fails: on the drained example registry a period registration with a NaN
  period raises the \<open>ValueError\<close> of \<open>math.floor\<close>, and one with an infinite period its
  \<open>OverflowError\<close>, not the \<open>AttributeError\<close> of the deleted table.
\<close>

theorem finalized_period_registration_counterexample:
  "build_clock_constraints (\<lambda>x. ''10.0'') example_toolchain example_platform =
     (None, example_toolchain\<lparr>clocks := None, false_paths := None\<rparr>,
      add_platform_command (xdc_separator ''Clock constraints'') [] example_platform) \<and>
   add_period_constraint (example_toolchain\<lparr>clocks := None, false_paths := None\<rparr>)
     example_platform 0 NaN =
     (Some (ValueError ''cannot convert float NaN to integer''),
      add_keep 0 (example_toolchain\<lparr>clocks := None, false_paths := None\<rparr>)) \<and>
   add_period_constraint (example_toolchain\<lparr>clocks := None, false_paths := None\<rparr>)
     example_platform 0 PInf =
     (Some OverflowError,
      add_keep 0 (example_toolchain\<lparr>clocks := None, false_paths := None\<rparr>)) \<and>
   ValueError ''cannot convert float NaN to integer'' \<noteq> AttributeError ''clocks'' \<and>
   OverflowError \<noteq> AttributeError ''clocks''"
proof -
  have n: "round_period NaN = Inl (ValueError ''cannot convert float NaN to integer'')"
    by (simp add: round_period_def mul_1e3_def math_floor_def)
  have i: "round_period PInf = Inl OverflowError"
    by (simp add: round_period_def mul_1e3_def math_floor_def)
  show ?thesis
    by (simp add: example_drain add_period_finalized n i)
qed

lemma add_period_first:
  assumes "add_period_constraint self pl c p1 = (None, s1)"
  shows "\<exists>r1 cs. round_period p1 = Inr r1 \<and> clocks self = Some cs \<and>
           s1 = (add_keep c self)\<lparr>clocks := Some (AList.update c r1 cs)\<rparr>"
  using assms
  by (auto simp: add_period_constraint_def Let_def add_keep_fields
      split: sum.splits option.splits if_splits)

lemma add_period_registered:
  assumes r2: "round_period p2 = Inr r2"
    and cl: "clocks s = Some cs"
    and old: "map_of cs c = Some r1"
    and keep: "add_keep c s = s"
  shows "add_period_constraint s pl c p2 =
           (if float_ne r2 r1 then
              (Some (ValueError (''Clock already constrained to '' @ fmt_2f r1 @
                                 ''ns, new constraint to '' @ fmt_2f r2 @ ''ns'')), s)
            else (None, s\<lparr>clocks := Some (AList.update c r2 cs)\<rparr>))"
  using r2 cl old by (simp add: add_period_constraint_def Let_def keep)

text \<open>
  C3. After a registration of clock \<open>c\<close> has returned, the table holds the rounded period
  \<open>r1\<close> for \<open>c\<close>. Registering \<open>c\<close> again, once or any number of times, with periods that
  round to \<open>r1\<close> returns and leaves the whole state as it was. Registering it with a period
  that rounds to another value raises the \<open>ValueError\<close> whose message gives the recorded
  and the new value with two decimals, and the state is unchanged as well.
\<close>

theorem add_period_idempotent_or_conflict:
  assumes first: "add_period_constraint self pl c p1 = (None, s1)"
  shows "\<exists>r1 cs. round_period p1 = Inr r1 \<and> clocks s1 = Some cs \<and> map_of cs c = Some r1 \<and>
           (\<forall>p2. round_period p2 = Inr r1 \<longrightarrow> add_period_constraint s1 pl c p2 = (None, s1)) \<and>
           (\<forall>ps. (\<forall>p \<in> set ps. round_period p = Inr r1) \<longrightarrow>
                 fold (\<lambda>p s. snd (add_period_constraint s pl c p)) ps s1 = s1) \<and>
           (\<forall>p2 r2. round_period p2 = Inr r2 \<and> r2 \<noteq> r1 \<longrightarrow>
                 add_period_constraint s1 pl c p2 =
                   (Some (ValueError (''Clock already constrained to '' @ fmt_2f r1 @
                                      ''ns, new constraint to '' @ fmt_2f r2 @ ''ns'')), s1))"
proof -
  from add_period_first [OF first] obtain r1 cs0 where
    r1: "round_period p1 = Inr r1" and cs0: "clocks self = Some cs0"
    and s1: "s1 = (add_keep c self)\<lparr>clocks := Some (AList.update c r1 cs0)\<rparr>"
    by blast
  let ?cs = "AList.update c r1 cs0"
  have cl: "clocks s1 = Some ?cs"
    by (simp add: s1)
  have old: "map_of ?cs c = Some r1"
    by (simp add: update_conv')
  have keep: "add_keep c s1 = s1"
    by (simp add: s1 add_keep_def)
  have nn: "r1 \<noteq> NaN"
    by (rule round_period_not_NaN [OF r1])
  have same: "add_period_constraint s1 pl c p2 = (None, s1)" if "round_period p2 = Inr r1" for p2
  proof -
    have "AList.update c r1 ?cs = ?cs"
      by (rule update_triv [OF old])
    then have "s1\<lparr>clocks := Some (AList.update c r1 ?cs)\<rparr> = s1"
      using cl by simp
    then show ?thesis
      using add_period_registered [OF that cl old keep, of pl] nn
      by (simp add: float_ne_def)
  qed
  have many: "fold (\<lambda>p s. snd (add_period_constraint s pl c p)) ps s1 = s1"
    if "\<forall>p \<in> set ps. round_period p = Inr r1" for ps
    using that by (induction ps) (simp_all add: same)
  have conflict: "add_period_constraint s1 pl c p2 =
                   (Some (ValueError (''Clock already constrained to '' @ fmt_2f r1 @
                                      ''ns, new constraint to '' @ fmt_2f r2 @ ''ns'')), s1)"
    if "round_period p2 = Inr r2" and "r2 \<noteq> r1" for p2 r2
    using add_period_registered [OF that(1) cl old keep, of pl] that(2)
    by (simp add: float_ne_def)
  from r1 cl old same many conflict show ?thesis
    by blast
qed

text \<open>
  The clock \<open>0\<close> registered at 10.0006 ns (the float nearest to it), again at 10.0006 ns, and
  then at 8 ns.
\<close>

lemma double_10_0006: "binary64 (100006 / 10000) = Finite (5629837304185173 / 562949953421312)"
  by code_simp

lemma round_period_10_0006:
  "round_period (Finite (5629837304185173 / 562949953421312)) = Inr (Finite 10)"
  by code_simp

lemma round_period_8: "round_period (Finite 8) = Inr (Finite 8)"
  by code_simp

lemma fmt_2f_10: "fmt_2f (Finite 10) = ''10.00''"
  by code_simp

lemma fmt_2f_8: "fmt_2f (Finite 8) = ''8.00''"
  by code_simp

theorem add_period_idempotent_or_conflict_witness:
  "add_period_constraint example_toolchain example_platform 0
     (Finite (5629837304185173 / 562949953421312)) =
     (None, (add_keep 0 example_toolchain)\<lparr>clocks := Some [(0, Finite 10)]\<rparr>) \<and>
   add_period_constraint ((add_keep 0 example_toolchain)\<lparr>clocks := Some [(0, Finite 10)]\<rparr>)
     example_platform 0 (Finite (5629837304185173 / 562949953421312)) =
     (None, (add_keep 0 example_toolchain)\<lparr>clocks := Some [(0, Finite 10)]\<rparr>) \<and>
   add_period_constraint ((add_keep 0 example_toolchain)\<lparr>clocks := Some [(0, Finite 10)]\<rparr>)
     example_platform 0 (Finite 8) =
     (Some (ValueError ''Clock already constrained to 10.00ns, new constraint to 8.00ns''),
      (add_keep 0 example_toolchain)\<lparr>clocks := Some [(0, Finite 10)]\<rparr>)"
proof -
  let ?p1 = "Finite (5629837304185173 / 562949953421312)"
  let ?s1 = "(add_keep 0 example_toolchain)\<lparr>clocks := Some [(0, Finite 10)]\<rparr>"
  have c: "clocks example_toolchain = Some []"
    by (simp add: example_toolchain_def init_toolchain_def)
  have first: "add_period_constraint example_toolchain example_platform 0 ?p1 = (None, ?s1)"
    by (simp add: add_period_constraint_def Let_def round_period_10_0006 add_keep_fields c)
  from add_period_idempotent_or_conflict [OF first] obtain r1 where
    r1: "round_period ?p1 = Inr r1"
    and same: "\<forall>p2. round_period p2 = Inr r1 \<longrightarrow>
                 add_period_constraint ?s1 example_platform 0 p2 = (None, ?s1)"
    and conflict: "\<forall>p2 r2. round_period p2 = Inr r2 \<and> r2 \<noteq> r1 \<longrightarrow>
                 add_period_constraint ?s1 example_platform 0 p2 =
                   (Some (ValueError (''Clock already constrained to '' @ fmt_2f r1 @
                                      ''ns, new constraint to '' @ fmt_2f r2 @ ''ns'')), ?s1)"
    by blast
  from r1 have r10: "r1 = Finite 10"
    by (simp add: round_period_10_0006)
  from same r1 have second: "add_period_constraint ?s1 example_platform 0 ?p1 = (None, ?s1)"
    by blast
  have "Finite 8 \<noteq> r1"
    by (simp add: r10)
  with conflict round_period_8
  have "add_period_constraint ?s1 example_platform 0 (Finite 8) =
          (Some (ValueError (''Clock already constrained to '' @ fmt_2f r1 @
                             ''ns, new constraint to '' @ fmt_2f (Finite 8) @ ''ns'')), ?s1)"
    by blast
  then have third: "add_period_constraint ?s1 example_platform 0 (Finite 8) =
          (Some (ValueError ''Clock already constrained to 10.00ns, new constraint to 8.00ns''), ?s1)"
    by (simp add: r10 fmt_2f_10 fmt_2f_8)
  from first second third show ?thesis
    by blast
qed

section \<open>Properties of \<open>build\<close>\<close>

lemma cwd_write_to_file: "cwd (write_to_file name contents w) = cwd w"
  by (simp add: write_to_file_def)

lemma cwd_build_run:
  "build_run ext pl build_name synth_mode w = (r, w') \<Longrightarrow> cwd w' = cwd w"
  by (auto simp: build_run_def cwd_write_to_file split: option.splits prod.splits if_splits)

lemma cwd_build_in_dir:
  assumes "build_in_dir ext self pl w build_name run synth_mode enable_xpm = (r, self', pl', w')"
  shows "cwd w' = cwd w"
proof (cases "finalize ext pl")
  case (Inl e)
  with assms show ?thesis by (auto simp: build_in_dir_def)
next
  case (Inr pl1)
  obtain r1 self1 pl2 where d: "build_clock_constraints (float_str ext) self pl1 = (r1, self1, pl2)"
    by (cases "build_clock_constraints (float_str ext) self pl1") auto
  show ?thesis
  proof (cases r1)
    case (Some e)
    with assms Inr d show ?thesis by (auto simp: build_in_dir_def)
  next
    case None
    let ?pl3 = "build_false_path_constraints pl2"
    show ?thesis
    proof (cases "get_verilog ext ?pl3 build_name")
      case (Inl e)
      with assms Inr d None show ?thesis by (auto simp: build_in_dir_def Let_def cwd_write_to_file)
    next
      case v: (Inr out)
      obtain v_text named_sc named_pc where out: "out = (v_text, named_sc, named_pc)"
        by (cases out) auto
      let ?w1 = "write_to_file (build_name @ ''.v'') v_text w"
      let ?pl4 = "add_source ext (build_name @ ''.v'') ?pl3"
      obtain tcl t where t: "build_tcl (str_format ext) self1 ?pl4 build_name synth_mode enable_xpm = (tcl, t)"
        by (cases "build_tcl (str_format ext) self1 ?pl4 build_name synth_mode enable_xpm") auto
      show ?thesis
      proof (cases t)
        case (Inl e)
        with assms Inr d None v out t show ?thesis
          by (auto simp: build_in_dir_def Let_def cwd_write_to_file)
      next
        case tw: (Inr fw)
        obtain tcl_file tcl_text where fw: "fw = (tcl_file, tcl_text)"
          by (cases fw) auto
        let ?w2 = "write_to_file tcl_file tcl_text ?w1"
        show ?thesis
        proof (cases "build_xdc named_sc named_pc")
          case (Inl e)
          with assms Inr d None v out t tw fw show ?thesis
            by (auto simp: build_in_dir_def Let_def cwd_write_to_file)
        next
          case x: (Inr xdc_text)
          let ?w3 = "write_to_file (build_name @ ''.xdc'') xdc_text ?w2"
          show ?thesis
          proof (cases run)
            case False
            with assms Inr d None v out t tw fw x show ?thesis
              by (auto simp: build_in_dir_def Let_def cwd_write_to_file)
          next
            case True
            obtain rr wr where br: "build_run ext ?pl4 build_name synth_mode ?w3 = (rr, wr)"
              by (cases "build_run ext ?pl4 build_name synth_mode ?w3") auto
            from cwd_build_run [OF br] have "cwd wr = cwd w"
              by (simp add: cwd_write_to_file)
            with assms Inr d None v out t tw fw x True br show ?thesis
              by (auto simp: build_in_dir_def Let_def cwd_write_to_file)
          qed
        qed
      qed
    qed
  qed
qed

lemma os_chdir_absolute:
  assumes "os_chdir ext (CHR ''/'' # path) w = Inr w'"
  shows "cwd w' = CHR ''/'' # path"
  using assms by (auto simp: os_chdir_def Let_def split: option.splits)

text \<open>
  C8, as the code has it. \<open>build\<close> saves the working directory, which is an absolute
  path, enters the build directory and goes back with \<open>os.chdir(cwd)\<close> as its last
  statement before \<open>return\<close>. When \<open>build\<close> returns, the working directory is the one
  before the call; it is also unchanged when \<open>os.makedirs\<close> or the first \<open>os.chdir\<close>
  raises. When a later statement raises, nothing restores it: it is the build directory.
\<close>

theorem build_restores_cwd_on_return:
  assumes b: "build ext self pl w build_dir build_name run synth_mode enable_xpm = (r, self', pl', w')"
    and abs: "cwd w = CHR ''/'' # path"
  shows "(r = None \<longrightarrow> cwd w' = cwd w) \<and>
         (makedirs ext build_dir \<noteq> None \<longrightarrow> cwd w' = cwd w) \<and>
         ((\<exists>e. os_chdir ext build_dir w = Inl e) \<longrightarrow> cwd w' = cwd w) \<and>
         (\<forall>w1. makedirs ext build_dir = None \<and> os_chdir ext build_dir w = Inr w1 \<and> r \<noteq> None \<longrightarrow>
               cwd w' = cwd w1)"
proof (cases "makedirs ext build_dir")
  case (Some e)
  with b show ?thesis by (auto simp: build_def)
next
  case None
  show ?thesis
  proof (cases "os_chdir ext build_dir w")
    case (Inl e)
    with b None show ?thesis by (auto simp: build_def Let_def)
  next
    case (Inr w1)
    obtain r2 self2 pl2 w2 where
      d: "build_in_dir ext self pl w1 build_name run synth_mode enable_xpm = (r2, self2, pl2, w2)"
      by (cases "build_in_dir ext self pl w1 build_name run synth_mode enable_xpm") auto
    have inside: "cwd w2 = cwd w1"
      by (rule cwd_build_in_dir [OF d])
    show ?thesis
    proof (cases r2)
      case (Some e)
      with b None Inr d inside show ?thesis by (auto simp: build_def Let_def)
    next
      case r2: None
      show ?thesis
      proof (cases "os_chdir ext (cwd w) w2")
        case (Inl e)
        with b None Inr d r2 inside show ?thesis by (auto simp: build_def Let_def)
      next
        case ret: (Inr w3)
        from ret abs have "cwd w3 = cwd w"
          using os_chdir_absolute [of ext path w2 w3] by simp
        with b None Inr d r2 ret show ?thesis by (auto simp: build_def Let_def)
      qed
    qed
  qed
qed

lemma example_fields:
  "finalize example_collaborators p = Inr p"
  "get_verilog example_collaborators p n = Inr (''module top(); endmodule'', [], [])"
  "run_yosys example_collaborators p n = None"
  "script_status example_collaborators f = 0"
  "sys_platform example_collaborators = ''linux''"
  "git_revision example_collaborators = ''0123abcd''"
  "str_format example_collaborators = format_build_name"
  by (simp_all add: example_collaborators_def)

lemma example_chdir:
  "os_chdir example_collaborators ''build'' example_world = Inr (example_world\<lparr>cwd := ''/work/build''\<rparr>)"
  by (simp add: os_chdir_def example_collaborators_def example_world_def)

text \<open>
  C8 as stated fails: with the synthesis mode \<open>quartus\<close> the assertion of \<open>_build_tcl\<close>
  raises inside \<open>build\<close>, and the working directory stays \<open>/work/build\<close> instead of
  \<open>/work\<close>.
\<close>

theorem build_error_leaves_cwd_counterexample:
  "fst (build example_collaborators example_toolchain example_platform example_world
          ''build'' ''top'' False ''quartus'' False) = Some AssertionError \<and>
   cwd (snd (snd (snd (build example_collaborators example_toolchain example_platform example_world
          ''build'' ''top'' False ''quartus'' False)))) = ''/work/build'' \<and>
   cwd example_world = ''/work'' \<and>
   cwd (snd (snd (snd (build example_collaborators example_toolchain example_platform example_world
          ''build'' ''top'' False ''quartus'' False)))) \<noteq> cwd example_world"
proof -
  have tcl: "build_tcl format_build_name s p ''top'' ''quartus'' False = ([], Inl AssertionError)" for s p
    by (simp add: build_tcl_def)
  have inner: "build_in_dir example_collaborators example_toolchain example_platform
                 (example_world\<lparr>cwd := ''/work/build''\<rparr>) ''top'' False ''quartus'' False =
               (Some AssertionError,
                example_toolchain\<lparr>clocks := None, false_paths := None\<rparr>,
                add_source example_collaborators ''top.v''
                  (build_false_path_constraints
                     (add_platform_command (xdc_separator ''Clock constraints'') [] example_platform)),
                write_to_file ''top.v'' ''module top(); endmodule''
                  (example_world\<lparr>cwd := ''/work/build''\<rparr>))"
    unfolding build_in_dir_def
    by (simp add: example_drain tcl Let_def example_fields)
  have "build example_collaborators example_toolchain example_platform example_world
          ''build'' ''top'' False ''quartus'' False =
        (Some AssertionError,
                example_toolchain\<lparr>clocks := None, false_paths := None\<rparr>,
                add_source example_collaborators ''top.v''
                  (build_false_path_constraints
                     (add_platform_command (xdc_separator ''Clock constraints'') [] example_platform)),
                write_to_file ''top.v'' ''module top(); endmodule''
                  (example_world\<lparr>cwd := ''/work/build''\<rparr>))"
    unfolding build_def
    by (simp add: example_makedirs example_chdir inner Let_def)
  then show ?thesis
    by (simp add: write_to_file_def example_world_def)
qed

lemma build_tcl_returns:
  assumes mode: "synth_mode \<in> {''vivado'', ''yosys''}"
    and hooks: "\<forall>c \<in> set (pre_synthesis_commands self @ pre_placement_commands self @
                  pre_routing_commands self @ bitstream_commands self @ additional_commands self).
                \<exists>line. fmt c build_name = Inr line"
  shows "\<exists>tcl. build_tcl fmt self pl build_name synth_mode enable_xpm =
                 (tcl, Inr (build_name @ ''.tcl'', join ''\<newline>'' (map snd tcl)))"
proof -
  let ?secs = "tcl_sections fmt self pl build_name synth_mode enable_xpm"
  let ?tcl = "concat (map (\<lambda>s. map (Pair (fst s)) (fst (snd s))) ?secs)"
  have f1: "snd (format_commands fmt build_name (pre_synthesis_commands self)) = None"
    and f2: "snd (format_commands fmt build_name (pre_placement_commands self)) = None"
    and f3: "snd (format_commands fmt build_name (pre_routing_commands self)) = None"
    and f4: "snd (format_commands fmt build_name (bitstream_commands self)) = None"
    and f5: "snd (format_commands fmt build_name (additional_commands self)) = None"
    using hooks by (auto intro!: format_commands_ok)
  have synth: "snd (tcl_synthesis self pl build_name synth_mode) = None"
    using mode by (auto simp: tcl_synthesis_def)
  have ok: "\<forall>s\<in>set ?secs. snd (snd s) = None"
    using f1 f2 f3 f4 synth tcl_bitstream_ok [OF f5]
    by (simp add: tcl_sections_def after_lines_ok tcl_create_project_def tcl_enable_xpm_def
        tcl_add_sources_def tcl_add_edifs_def tcl_add_ips_def tcl_add_constraints_def
        tcl_pre_synthesis_def tcl_optimize_def tcl_pre_placement_def tcl_placement_def
        tcl_pre_routing_def tcl_routing_def)
  have run: "run_sections ?secs = (?tcl, None)"
    by (rule run_sections_all_ok [OF ok])
  have "build_tcl fmt self pl build_name synth_mode enable_xpm =
              (?tcl, Inr (build_name @ ''.tcl'', join ''\<newline>'' (map snd ?tcl)))"
    using mode by (auto simp: build_tcl_def run)
  then show ?thesis
    by blast
qed

text \<open>A build of the example that runs the tool and returns: the directory is \<open>/work\<close> again.\<close>

theorem build_restores_cwd_on_return_witness:
  "(\<exists>self' pl' w'.
      build example_collaborators example_toolchain example_platform example_world
        ''build'' ''top'' True ''vivado'' False = (None, self', pl', w') \<and>
      cwd w' = cwd example_world) \<and>
   cwd example_world = CHR ''/'' # ''work''"
proof -
  let ?s = "example_toolchain\<lparr>clocks := None, false_paths := None\<rparr>"
  let ?pl = "add_source example_collaborators ''top.v''
               (build_false_path_constraints
                  (add_platform_command (xdc_separator ''Clock constraints'') [] example_platform))"
  let ?w1 = "example_world\<lparr>cwd := ''/work/build''\<rparr>"
  have mode: "''vivado'' \<in> {''vivado'', ''yosys''}"
    by simp
  have hooks: "\<forall>c \<in> set (pre_synthesis_commands ?s @ pre_placement_commands ?s @
                  pre_routing_commands ?s @ bitstream_commands ?s @ additional_commands ?s).
                \<exists>line. format_build_name c ''top'' = Inr line"
    by (simp add: example_toolchain_def init_toolchain_def)
  from build_tcl_returns [where fmt = format_build_name and self = ?s and build_name = "''top''"
      and synth_mode = "''vivado''" and pl = ?pl and enable_xpm = False, OF mode hooks]
  obtain tcl where
    tcl: "build_tcl format_build_name ?s ?pl ''top'' ''vivado'' False =
            (tcl, Inr (''top.tcl'', join ''\<newline>'' (map snd tcl)))"
    by auto
  have xdc: "build_xdc [] [] = Inr (xdc_separator ''IO constraints'' @ xdc_separator ''Design constraints'')"
    by (simp add: build_xdc_def)
  obtain r self2 pl2 w2 where
    inner: "build_in_dir example_collaborators example_toolchain example_platform ?w1
              ''top'' True ''vivado'' False = (r, self2, pl2, w2)"
    by (cases "build_in_dir example_collaborators example_toolchain example_platform ?w1
              ''top'' True ''vivado'' False") auto
  have r: "r = None"
    using inner unfolding build_in_dir_def
    by (simp add: example_drain Let_def example_fields tcl xdc build_run_def build_script_def
        run_script_def split: prod.splits)
  have cw2: "cwd w2 = ''/work/build''"
    using cwd_build_in_dir [OF inner] by simp
  have chd: "os_chdir example_collaborators ''/work'' w2 = Inr (w2\<lparr>cwd := ''/work''\<rparr>)"
    by (simp add: os_chdir_def example_collaborators_def)
  have b: "build example_collaborators example_toolchain example_platform example_world
        ''build'' ''top'' True ''vivado'' False = (None, self2, pl2, w2\<lparr>cwd := ''/work''\<rparr>)"
    unfolding build_def
    by (simp add: example_makedirs example_chdir inner r Let_def)
       (simp add: example_world_def chd)
  have ab: "cwd example_world = CHR ''/'' # ''work''"
    by (simp add: example_world_def)
  from build_restores_cwd_on_return [OF b ab] b ab show ?thesis
    by blast
qed

section \<open>Properties of the period rounding\<close>

text \<open>
  \<open>ilog2\<close> is the binary exponent: \<open>2 ^ ilog2 a \<le> a < 2 ^ (ilog2 a + 1)\<close>. So the overflow
  test of \<open>binary64\<close> says that the rounded value has reached \<open>2 ^ 1024\<close>.
\<close>

lemma pow2_powi: "pow2 e = 2 powi e"
  by (simp add: pow2_def power_int_def power_one_over inverse_eq_divide)

lemma pow2_pos: "0 < pow2 e"
  by (simp add: pow2_powi)

lemma pow2_less: "a < b \<Longrightarrow> pow2 a < pow2 b"
  by (simp add: pow2_powi power_int_strict_increasing)

lemma ilog2_bounds:
  assumes "0 < a"
  shows "pow2 (ilog2 a) \<le> a \<and> a < pow2 (ilog2 a + 1)"
proof -
  obtain n d where q: "quotient_of a = (n, d)"
    by (cases "quotient_of a") auto
  have d: "0 < d"
    by (rule quotient_of_denom_pos [OF q])
  have a: "a = of_int n / of_int d"
    by (rule quotient_of_div [OF q])
  from assms a d have n: "0 < n"
    by (simp add: zero_less_divide_iff)
  let ?bn = "bitlen n" and ?bd = "bitlen d"
  have bn1: "1 \<le> ?bn" and bd1: "1 \<le> ?bd"
    using n d bitlen_eq_zero_iff [of n] bitlen_eq_zero_iff [of d] bitlen_nonneg [of n]
      bitlen_nonneg [of d] by linarith+
  from bitlen_bounds [OF n] have nlo: "(2 :: int) ^ nat (?bn - 1) \<le> n" and nhi: "n < 2 ^ nat ?bn"
    by simp_all
  from bitlen_bounds [OF d] have dlo: "(2 :: int) ^ nat (?bd - 1) \<le> d" and dhi: "d < 2 ^ nat ?bd"
    by simp_all
  have rn_lo: "pow2 (?bn - 1) \<le> of_int n"
  proof -
    have "(of_int ((2 :: int) ^ nat (?bn - 1)) :: rat) \<le> of_int n"
      using nlo by (simp only: of_int_le_iff)
    then show ?thesis
      using bn1 by (simp add: pow2_def)
  qed
  have rn_hi: "of_int n < pow2 ?bn"
  proof -
    have "(of_int n :: rat) < of_int ((2 :: int) ^ nat ?bn)"
      using nhi by (simp only: of_int_less_iff)
    then show ?thesis
      using bn1 by (simp add: pow2_def)
  qed
  have rd_lo: "pow2 (?bd - 1) \<le> of_int d"
  proof -
    have "(of_int ((2 :: int) ^ nat (?bd - 1)) :: rat) \<le> of_int d"
      using dlo by (simp only: of_int_le_iff)
    then show ?thesis
      using bd1 by (simp add: pow2_def)
  qed
  have rd_hi: "of_int d < pow2 ?bd"
  proof -
    have "(of_int d :: rat) < of_int ((2 :: int) ^ nat ?bd)"
      using dhi by (simp only: of_int_less_iff)
    then show ?thesis
      using bd1 by (simp add: pow2_def)
  qed
  have dpos: "(0 :: rat) < of_int d"
    using d by simp
  have upper: "a < pow2 (?bn - ?bd + 1)"
  proof -
    have "pow2 (?bn - ?bd + 1) * pow2 (?bd - 1) = pow2 ?bn"
      by (simp add: pow2_powi flip: power_int_add)
    moreover have "pow2 (?bn - ?bd + 1) * pow2 (?bd - 1) \<le> pow2 (?bn - ?bd + 1) * of_int d"
      using rd_lo pow2_pos [of "?bn - ?bd + 1"] by (simp add: mult_left_mono)
    ultimately have "of_int n < pow2 (?bn - ?bd + 1) * of_int d"
      using rn_hi by linarith
    then show ?thesis
      using dpos by (simp add: a pos_divide_less_eq)
  qed
  have lower: "pow2 (?bn - ?bd - 1) \<le> a"
  proof -
    have "pow2 (?bn - ?bd - 1) * pow2 ?bd = pow2 (?bn - 1)"
      by (simp add: pow2_powi flip: power_int_add)
    moreover have "pow2 (?bn - ?bd - 1) * of_int d \<le> pow2 (?bn - ?bd - 1) * pow2 ?bd"
      using rd_hi pow2_pos [of "?bn - ?bd - 1"] by (simp add: mult_left_mono)
    ultimately have "pow2 (?bn - ?bd - 1) * of_int d \<le> of_int n"
      using rn_lo by linarith
    then show ?thesis
      using dpos by (simp add: a pos_le_divide_eq)
  qed
  show ?thesis
  proof (cases "pow2 (?bn - ?bd) \<le> a")
    case True
    then have "ilog2 a = ?bn - ?bd"
      by (simp add: ilog2_def q Let_def)
    with True upper show ?thesis
      by simp
  next
    case False
    then have "ilog2 a = ?bn - ?bd - 1"
      by (simp add: ilog2_def q Let_def)
    with False lower show ?thesis
      by simp
  qed
qed

lemma ilog2_unique:
  assumes "0 < a" and "pow2 e \<le> a" and "a < pow2 (e + 1)"
  shows "ilog2 a = e"
proof -
  from ilog2_bounds [OF assms(1)] have lo: "pow2 (ilog2 a) \<le> a" and hi: "a < pow2 (ilog2 a + 1)"
    by simp_all
  have "\<not> ilog2 a + 1 \<le> e"
  proof
    assume "ilog2 a + 1 \<le> e"
    then have "pow2 (ilog2 a + 1) \<le> pow2 e"
      by (simp add: pow2_powi power_int_increasing)
    with hi assms(2) show False by linarith
  qed
  moreover have "\<not> e + 1 \<le> ilog2 a"
  proof
    assume "e + 1 \<le> ilog2 a"
    then have "pow2 (e + 1) \<le> pow2 (ilog2 a)"
      by (simp add: pow2_powi power_int_increasing)
    with lo assms(3) show False by linarith
  qed
  ultimately show ?thesis
    by linarith
qed

lemma pow2_mono: "a \<le> b \<Longrightarrow> pow2 a \<le> pow2 b"
  by (simp add: pow2_powi power_int_increasing)

lemma overflow_test:
  assumes "0 < v"
  shows "1024 \<le> ilog2 v \<longleftrightarrow> 2 ^ 1024 \<le> v"
proof -
  have p: "pow2 1024 = 2 ^ 1024"
    by (simp add: pow2_def)
  show ?thesis
  proof
    assume "1024 \<le> ilog2 v"
    then have "pow2 1024 \<le> pow2 (ilog2 v)"
      by (rule pow2_mono)
    with ilog2_bounds [OF assms] have "pow2 1024 \<le> v"
      by linarith
    then show "2 ^ 1024 \<le> v"
      by (simp only: p)
  next
    assume "2 ^ 1024 \<le> v"
    then have big: "pow2 1024 \<le> v"
      by (simp only: p)
    show "1024 \<le> ilog2 v"
    proof (rule ccontr)
      assume "\<not> 1024 \<le> ilog2 v"
      then have "ilog2 v + 1 \<le> 1024"
        by simp
      then have "pow2 (ilog2 v + 1) \<le> pow2 1024"
        by (rule pow2_mono)
      with ilog2_bounds [OF assms] big show False
        by linarith
    qed
  qed
qed

text \<open>
  The model of the floats agrees with Python on these values: \<open>0.1\<close>, \<open>1/3\<close>, and the two
  ties \<open>2 ^ 53 + 1\<close> and \<open>2 ^ 53 + 3\<close>, which go to the even significand.
\<close>

lemma binary64_examples:
  "binary64 (1 / 10) = Finite (3602879701896397 / 36028797018963968) \<and>
   binary64 (1 / 3) = Finite (6004799503160661 / 18014398509481984) \<and>
   binary64 (9007199254740993) = Finite 9007199254740992 \<and>
   binary64 (9007199254740995) = Finite 9007199254740996"
  by code_simp

text \<open>The example of the specification: 3.14159 is rounded to the float 3.141.\<close>

lemma round_period_3_14159:
  "binary64 (314159 / 100000) = Finite (3537115888337719 / 1125899906842624) \<and>
   round_period (Finite (3537115888337719 / 1125899906842624)) = Inr (Finite (1768225803696341 / 562949953421312)) \<and>
   binary64 (3141 / 1000) = Finite (1768225803696341 / 562949953421312)"
  by code_simp

text \<open>
  C7. \<open>math.floor(period*1e3)/1e3\<close> is computed on binary floats. The float 1.0015 is
  rounded to the float 1.001, which is a little less than 1.001, and that float is rounded
  to 1.0: rounding twice is not rounding once. The float just below 0.117 (it prints as
  0.11699999999999999) is rounded to the float 0.117, which is greater: the rounding
  rounds up there.
\<close>

theorem round_period_not_idempotent:
  "binary64 (10015 / 10000) = Finite (140948594587861 / 140737488355328) \<and>
   round_period (Finite (140948594587861 / 140737488355328)) = Inr (Finite (2254051613498933 / 2251799813685248)) \<and>
   round_period (Finite (2254051613498933 / 2251799813685248)) = Inr (Finite (1)) \<and>
   Finite (2254051613498933 / 2251799813685248) \<noteq> Finite (1) \<and>
   round_period (Finite (131730289100587 / 1125899906842624)) = Inr (Finite (8430738502437569 / 72057594037927936)) \<and>
   ((131730289100587 / 1125899906842624) :: rat) < 8430738502437569 / 72057594037927936"
  by code_simp

text \<open>
  What follows for the registry: the clock \<open>0\<close> is registered at 1.0015 ns, which records
  the float 1.001; registering it again at the recorded value raises the conflict.
\<close>

lemma fmt_2f_1_001:
  "fmt_2f (Finite (2254051613498933 / 2251799813685248)) = ''1.00'' \<and> fmt_2f (Finite 1) = ''1.00''"
  by code_simp

lemma register_stored_value_conflicts:
  "add_period_constraint example_toolchain example_platform 0
     (Finite (140948594587861 / 140737488355328)) =
     (None, (add_keep 0 example_toolchain)
              \<lparr>clocks := Some [(0, Finite (2254051613498933 / 2251799813685248))]\<rparr>) \<and>
   add_period_constraint
     ((add_keep 0 example_toolchain)
        \<lparr>clocks := Some [(0, Finite (2254051613498933 / 2251799813685248))]\<rparr>)
     example_platform 0 (Finite (2254051613498933 / 2251799813685248)) =
     (Some (ValueError ''Clock already constrained to 1.00ns, new constraint to 1.00ns''),
      (add_keep 0 example_toolchain)
        \<lparr>clocks := Some [(0, Finite (2254051613498933 / 2251799813685248))]\<rparr>)"
proof -
  have r1: "round_period (Finite (140948594587861 / 140737488355328)) =
              Inr (Finite (2254051613498933 / 2251799813685248))"
    by code_simp
  have r2: "round_period (Finite (2254051613498933 / 2251799813685248)) = Inr (Finite 1)"
    by code_simp
  have c: "clocks example_toolchain = Some []"
    by (simp add: example_toolchain_def init_toolchain_def)
  show ?thesis
    by (simp add: add_period_constraint_def Let_def r1 r2 add_keep_fields c
        float_ne_def fmt_2f_1_001)
       (simp add: add_keep_def)
qed

end
